theory Spec2Isabelle
  imports Complex_Main "HOL-Library.Char_ord" "HOL-Library.List_Lexorder" "HOL-Library.Log_Nat"
begin

section \<open>JavaScript strings\<close>

text \<open>
  A JavaScript string is modelled as a \<^typ>\<open>string\<close>: the list of its code units, each
  an 8-bit character, so the embedding covers the strings whose code units are below
  256 (ISO 8859-1). The white space of \<open>String.prototype.trim\<close> in that range is TAB, LF,
  VT, FF, CR, SPACE and NBSP.

  \<open>toLowerCase\<close> maps A-Z and the letters 192-222 other than the multiplication sign 215
  to the code unit 32 above; every other code unit below 256 is unchanged. On these
  strings that is the whole of the Unicode mapping JavaScript applies.

  \<open>toUpperCase\<close> maps a-z and the letters 224-254 other than the division sign 247 to
  the code unit 32 below, and the sharp s 223 to the two letters SS, so the result can be
  longer than the argument. Two code units below 256 have an upper case above 255: the
  micro sign 181 (to U+039C) and the y with diaeresis 255 (to U+0178). Those results
  are not strings of this embedding, and the two code units are left unchanged here.
\<close>

definition isWhiteSpace :: "char \<Rightarrow> bool" where
  "isWhiteSpace c = ((of_char c :: nat) \<in> {9, 10, 11, 12, 13, 32, 160})"

definition isDigit :: "char \<Rightarrow> bool" where
  "isDigit c = (48 \<le> (of_char c :: nat) \<and> (of_char c :: nat) \<le> 57)"

definition upper_char :: "char \<Rightarrow> string" where
  "upper_char c =
     (let n = (of_char c :: nat)
      in if (97 \<le> n \<and> n \<le> 122) \<or> (224 \<le> n \<and> n \<le> 254 \<and> n \<noteq> 247) then [char_of (n - 32)]
         else if n = 223 then ''SS''
         else [c])"

definition lower_char :: "char \<Rightarrow> char" where
  "lower_char c =
     (let n = (of_char c :: nat)
      in if (65 \<le> n \<and> n \<le> 90) \<or> (192 \<le> n \<and> n \<le> 222 \<and> n \<noteq> 215) then char_of (n + 32)
         else c)"

definition toUpperCase :: "string \<Rightarrow> string" where
  "toUpperCase s = concat (map upper_char s)"

definition toLowerCase :: "string \<Rightarrow> string" where
  "toLowerCase s = map lower_char s"

definition trimStart :: "string \<Rightarrow> string" where
  "trimStart s = dropWhile isWhiteSpace s"

definition trim :: "string \<Rightarrow> string" where
  "trim s = rev (trimStart (rev (trimStart s)))"

text \<open>\<open>Array.prototype.join\<close> on an array of strings.\<close>

fun join :: "string \<Rightarrow> string list \<Rightarrow> string" where
  "join sep [] = []"
| "join sep [x] = x"
| "join sep (x # y # ys) = x @ sep @ join sep (y # ys)"

section \<open>ValidationService\<close>

text \<open>
  The fields of a submission are strings by their declared type; the code also guards
  against a field that is missing at run time (\<open>!input.city\<close>, \<open>input.city?.trim()\<close>),
  so a field is a \<^typ>\<open>string option\<close>, \<open>None\<close> standing for \<open>undefined\<close> or \<open>null\<close>.
\<close>

record CreatePropertyInput =
  city :: "string option"
  street :: "string option"
  state :: "string option"
  zipCode :: "string option"

record ValidationResult =
  isValid :: bool
  errors :: "string list"

text \<open>
  Modelled from the spec: the table \<open>US_STATES\<close> is imported from \<open>types.ts\<close>, which is
  not among the sources. The spec calls it "a fixed enumerated set of valid US
  state/territory abbreviations"; the tests accept \<open>AZ\<close> and reject \<open>XX\<close>. The table here
  is the fifty states, the federal district and the five inhabited territories, in
  upper case.
\<close>

definition US_STATES :: "string list" where
  "US_STATES =
    [''AL'', ''AK'', ''AZ'', ''AR'', ''CA'', ''CO'', ''CT'', ''DE'', ''FL'', ''GA'',
     ''HI'', ''ID'', ''IL'', ''IN'', ''IA'', ''KS'', ''KY'', ''LA'', ''ME'', ''MD'',
     ''MA'', ''MI'', ''MN'', ''MS'', ''MO'', ''MT'', ''NE'', ''NV'', ''NH'', ''NJ'',
     ''NM'', ''NY'', ''NC'', ''ND'', ''OH'', ''OK'', ''OR'', ''PA'', ''RI'', ''SC'',
     ''SD'', ''TN'', ''TX'', ''UT'', ''VT'', ''VA'', ''WA'', ''WV'', ''WI'', ''WY'',
     ''DC'', ''AS'', ''GU'', ''MP'', ''PR'', ''VI'']"

text \<open>\<open>!v || p(v)\<close> for a string \<open>v\<close> that may be missing: the empty string is falsy.\<close>

definition falsy_or :: "string option \<Rightarrow> (string \<Rightarrow> bool) \<Rightarrow> bool" where
  "falsy_or v p = (case v of None \<Rightarrow> True | Some s \<Rightarrow> s = [] \<or> p s)"

text \<open>The regular expression \<open>/^\d{5}$/\<close>: exactly five ASCII digits.\<close>

definition zip_regex_test :: "string \<Rightarrow> bool" where
  "zip_regex_test z = (length z = 5 \<and> list_all isDigit z)"

definition city_required :: string where
  "city_required = ''City is required''"

definition street_required :: string where
  "street_required = ''Street is required''"

definition state_required :: string where
  "state_required = ''Valid US state abbreviation is required (e.g., CA, NY, TX)''"

definition zip_required :: string where
  "zip_required = ''Valid 5-digit zip code is required''"

text \<open>\<open>errors.push(msg)\<close> under a condition.\<close>

definition push_if :: "bool \<Rightarrow> string \<Rightarrow> string list \<Rightarrow> string list" where
  "push_if b msg es = (if b then es @ [msg] else es)"

definition validatePropertyInput :: "CreatePropertyInput \<Rightarrow> ValidationResult" where
  "validatePropertyInput input =
     (let es0 = [];
          es1 = push_if (falsy_or (city input) (\<lambda>c. length (trim c) = 0)) city_required es0;
          es2 = push_if (falsy_or (street input) (\<lambda>c. length (trim c) = 0)) street_required es1;
          es3 = push_if (falsy_or (state input) (\<lambda>s. \<not> List.member US_STATES s))
                  state_required es2;
          es4 = push_if (falsy_or (zipCode input) (\<lambda>z. \<not> zip_regex_test z)) zip_required es3
      in \<lparr>isValid = (length es4 = 0), errors = es4\<rparr>)"

text \<open>\<open>v?.trim() || ''\<close> and \<open>v?.toUpperCase()?.trim() || ''\<close>.\<close>

definition trim_or_empty :: "string option \<Rightarrow> string" where
  "trim_or_empty v = (case v of None \<Rightarrow> [] | Some s \<Rightarrow> trim s)"

definition upper_trim_or_empty :: "string option \<Rightarrow> string" where
  "upper_trim_or_empty v = (case v of None \<Rightarrow> [] | Some s \<Rightarrow> trim (toUpperCase s))"

definition sanitizeInput :: "CreatePropertyInput \<Rightarrow> CreatePropertyInput" where
  "sanitizeInput input =
     \<lparr>city = Some (trim_or_empty (city input)),
      street = Some (trim_or_empty (street input)),
      state = Some (upper_trim_or_empty (state input)),
      zipCode = Some (trim_or_empty (zipCode input))\<rparr>"

section \<open>JavaScript numbers\<close>

text \<open>
  A JavaScript number is \<open>NaN\<close>, one of the two infinities, or a finite value. A finite
  value is the rational it denotes. The arithmetic of the synthetic generator rounds
  every result to the nearest double (\<open>fl\<close> below); \<open>parseFloat\<close> keeps the value of
  the decimal it reads, and models the overflow of a decimal to an infinity.
\<close>

datatype jsnum = NaN | PosInf | NegInf | Fin rat

definition isNaN :: "jsnum \<Rightarrow> bool" where
  "isNaN x = (x = NaN)"

definition isFinite :: "jsnum \<Rightarrow> bool" where
  "isFinite x = (case x of Fin _ \<Rightarrow> True | _ \<Rightarrow> False)"

definition digit_val :: "char \<Rightarrow> nat" where
  "digit_val c = of_char c - 48"

definition digits_val :: "string \<Rightarrow> nat" where
  "digits_val ds = foldl (\<lambda>a c. 10 * a + digit_val c) 0 ds"

text \<open>
  A decimal whose magnitude reaches \<open>2^1024 - 2^970\<close>, half an ulp above the largest
  double, rounds to an infinity.
\<close>

definition round_double :: "rat \<Rightarrow> jsnum" where
  "round_double v =
     (if 2 ^ 1024 - 2 ^ 970 \<le> v then PosInf
      else if v \<le> - (2 ^ 1024 - 2 ^ 970) then NegInf
      else Fin v)"

text \<open>The value of the longest \<open>ExponentPart\<close> that starts the string, 0 when there is none.\<close>

definition signed_digits :: "string \<Rightarrow> int" where
  "signed_digits r =
     (case r of
        [] \<Rightarrow> 0
      | c # r' \<Rightarrow>
          if c = CHR ''-'' then - int (digits_val (takeWhile isDigit r'))
          else if c = CHR ''+'' then int (digits_val (takeWhile isDigit r'))
          else int (digits_val (takeWhile isDigit r)))"

definition has_signed_digits :: "string \<Rightarrow> bool" where
  "has_signed_digits r =
     (case r of
        [] \<Rightarrow> False
      | c # r' \<Rightarrow>
          if c = CHR ''-'' \<or> c = CHR ''+'' then takeWhile isDigit r' \<noteq> []
          else isDigit c)"

definition exponent_part :: "string \<Rightarrow> int" where
  "exponent_part r =
     (case r of
        [] \<Rightarrow> 0
      | c # r' \<Rightarrow>
          if (c = CHR ''e'' \<or> c = CHR ''E'') \<and> has_signed_digits r' then signed_digits r'
          else 0)"

text \<open>
  The global \<open>parseFloat\<close>: leading white space is skipped, the longest prefix that is a
  \<open>StrDecimalLiteral\<close> (a sign, then \<open>Infinity\<close> or digits with an optional fraction and
  exponent) is read, and whatever follows is ignored; with no such prefix the result is
  \<open>NaN\<close>.
\<close>

definition parseFloat :: "string \<Rightarrow> jsnum" where
  "parseFloat s =
     (let t = trimStart s;
          signed = (t \<noteq> [] \<and> (hd t = CHR ''-'' \<or> hd t = CHR ''+''));
          neg = (t \<noteq> [] \<and> hd t = CHR ''-'');
          u = (if signed then tl t else t)
      in if take 8 u = ''Infinity'' then (if neg then NegInf else PosInf)
         else
           let ip = takeWhile isDigit u;
               r1 = dropWhile isDigit u;
               dot = (r1 \<noteq> [] \<and> hd r1 = CHR ''.'');
               fp = (if dot then takeWhile isDigit (tl r1) else []);
               r2 = (if dot then dropWhile isDigit (tl r1) else r1)
           in if ip = [] \<and> fp = [] then NaN
              else
                let m = (of_nat (digits_val (ip @ fp)) :: rat) / 10 ^ length fp;
                    e = exponent_part r2;
                    v = (if 0 \<le> e then m * 10 ^ nat e else m / 10 ^ nat (- e))
                in round_double (if neg then - v else v))"

text \<open>Decimal digits of a natural number.\<close>

fun show_nat :: "nat \<Rightarrow> string" where
  "show_nat n =
     (if n < 10 then [char_of (48 + n)] else show_nat (n div 10) @ [char_of (48 + n mod 10)])"

definition show_int :: "int \<Rightarrow> string" where
  "show_int i = (if i < 0 then CHR ''-'' # show_nat (nat (- i)) else show_nat (nat i))"

text \<open>
  \<open>Number.prototype.toString\<close> on the double nearest to a number with at most three
  decimals, the only numbers the code prints: the shortest decimal that reads back as
  that double is the number itself, printed as its integer part and its decimals
  without trailing zeros.
\<close>

definition number_toString :: "rat \<Rightarrow> string" where
  "number_toString q =
     (let n = \<lfloor>q * 1000 + 1 / 2\<rfloor>;
          a = nat \<bar>n\<bar>;
          f = a mod 1000;
          ds = [char_of (48 + f div 100), char_of (48 + f div 10 mod 10), char_of (48 + f mod 10)];
          frac = rev (dropWhile (\<lambda>c. c = CHR ''0'') (rev ds));
          body = show_nat (a div 1000) @ (if f = 0 then [] else CHR ''.'' # frac)
      in if n < 0 then CHR ''-'' # body else body)"

text \<open>\<open>ToInt32\<close>, the wrap-around of the bitwise operators, and the remainder \<open>%\<close>, which
  takes the sign of the dividend.\<close>

definition toInt32 :: "int \<Rightarrow> int" where
  "toInt32 x = (x + 2 ^ 31) mod 2 ^ 32 - 2 ^ 31"

definition js_rem :: "int \<Rightarrow> int \<Rightarrow> int" where
  "js_rem a b = sgn a * (\<bar>a\<bar> mod \<bar>b\<bar>)"

definition math_round :: "rat \<Rightarrow> int" where
  "math_round x = \<lfloor>x + 1 / 2\<rfloor>"

text \<open>
  Rounding to the nearest double. \<open>expo x\<close> is the binary exponent of a non-zero \<open>x\<close>,
  the \<open>e\<close> with \<open>2^e \<le> |x| < 2^(e+1)\<close>, found from the bit lengths of the numerator and the
  denominator. A double has 53 significant bits, so the doubles near \<open>x\<close> are the
  multiples of \<open>2^(e-52)\<close>, and of \<open>2^(-1074)\<close> below the normal range; \<open>fl x\<close> is the
  nearest of them, the one with the even multiplier when two are equally near. The
  overflow to an infinity and the sign of zero are not modelled: the magnitudes the
  generator computes are below 126001.
\<close>

definition expo :: "rat \<Rightarrow> int" where
  "expo x =
     (let d = bitlen (fst (quotient_of \<bar>x\<bar>)) - bitlen (snd (quotient_of \<bar>x\<bar>))
      in if 2 powi d \<le> \<bar>x\<bar> then d else d - 1)"

definition round_half_even :: "rat \<Rightarrow> int" where
  "round_half_even y =
     (let f = \<lfloor>y\<rfloor>;
          r = y - of_int f
      in if r < 1 / 2 then f
         else if 1 / 2 < r then f + 1
         else if even f then f
         else f + 1)"

definition fl :: "rat \<Rightarrow> rat" where
  "fl x =
     (if x = 0 then 0
      else
        let q = 2 powi (max (expo x) (- 1022) - 52)
        in of_int (round_half_even (x / q)) * q)"

text \<open>The largest relative error of a rounding in the normal range.\<close>

definition ulp_half :: rat where
  "ulp_half = 1 / 2 ^ 53"

section \<open>Weather data\<close>

record WeatherRequest =
  req_type :: string
  req_query :: string
  req_language :: string
  req_unit :: string

text \<open>
  A value read from an object by a key: a string, or, when the key names a member that
  every object inherits from \<open>Object.prototype\<close>, that member (a function or an object,
  never a string).
\<close>

datatype jsvalue = Str string | Inherited string

record WeatherLocation =
  name :: string
  country :: string
  region :: string
  lat :: string
  lon :: string
  timezone_id :: jsvalue
  localtime :: string
  localtime_epoch :: int
  utc_offset :: jsvalue

record WeatherCurrent =
  observation_time :: string
  temperature :: int
  weather_code :: int
  weather_icons :: "string list"
  weather_descriptions :: "string list"
  wind_speed :: int
  wind_degree :: int
  wind_dir :: string
  pressure :: int
  precip :: rat
  humidity :: int
  cloudcover :: int
  feelslike :: int
  uv_index :: int
  visibility :: int
  is_day :: string

text \<open>
  A snapshot is the provider's response body as it came: each of its three sections
  may be missing.
\<close>

record WeatherData =
  request :: "WeatherRequest option"
  location :: "WeatherLocation option"
  current :: "WeatherCurrent option"

text \<open>A thrown value: an \<open>Error\<close> with its message, or a value that is not an \<open>Error\<close>.\<close>

datatype thrown = Error string | NonError

section \<open>WeatherstackService\<close>

record ApiError =
  err_code :: int
  err_info :: string

record ResponseData =
  resp_error :: "ApiError option"
  resp_success :: "bool option"
  resp_body :: WeatherData

record AxiosError =
  ax_code :: "string option"
  ax_status :: "int option"
  ax_message :: string

datatype axios_result =
  Resolved ResponseData
| RejectedAxios AxiosError
| Rejected thrown

record HttpRequest =
  url :: string
  access_key :: string
  query :: string
  units :: string
  timeout :: int

text \<open>
  What the adapter reads from outside: the network (\<open>axios.get\<close>), the clock
  (\<open>new Date().toISOString()\<close>, \<open>Date.now()\<close>, \<open>toLocaleTimeString\<close>) and the successive
  values of \<open>Math.random()\<close>, each a double in [0, 1).
\<close>

record Runtime =
  axios_get :: "HttpRequest \<Rightarrow> axios_result"
  now_iso :: string
  now_ms :: int
  now_locale_time :: string
  random :: "nat \<Rightarrow> rat"

record WeatherstackService =
  apiKey :: string
  baseUrl :: string

definition new_WeatherstackService :: "string \<Rightarrow> WeatherstackService" where
  "new_WeatherstackService key =
     \<lparr>apiKey = key, baseUrl = ''https://api.weatherstack.com/current''\<rparr>"

definition city_hash :: "string \<Rightarrow> int" where
  "city_hash c =
     foldl (\<lambda>a b. let a' = toInt32 (a * 2 ^ 5) - a + of_char b in toInt32 a') 0 (toLowerCase c)"

definition generateCoordinates :: "string \<Rightarrow> string \<Rightarrow> rat \<times> rat" where
  "generateCoordinates c st =
     (let hash = city_hash c;
          lat = fl (24 + fl (of_int \<bar>js_rem hash 25000\<bar> / 1000));
          long = fl (- 125 + fl (of_int \<bar>js_rem hash 59000\<bar> / 1000))
      in (fl (of_int (math_round (fl (lat * 1000))) / 1000),
          fl (of_int (math_round (fl (long * 1000))) / 1000)))"

text \<open>
  The two lookup tables, read at a state code: \<open>table[state] || default\<close>. A key of the
  table gives its entry. Any other key is looked up in \<open>Object.prototype\<close>: a name that is
  a member there gives that member, which is truthy, and every other name gives the
  default.
\<close>

definition object_prototype_members :: "string list" where
  "object_prototype_members =
     [''constructor'', ''__defineGetter__'', ''__defineSetter__'', ''hasOwnProperty'',
      ''__lookupGetter__'', ''__lookupSetter__'', ''isPrototypeOf'', ''propertyIsEnumerable'',
      ''toString'', ''valueOf'', ''__proto__'', ''toLocaleString'']"

definition lookup_or :: "(string \<times> string) list \<Rightarrow> string \<Rightarrow> string \<Rightarrow> jsvalue" where
  "lookup_or table key dflt =
     (case map_of table key of
        Some v \<Rightarrow> if v = [] then Str dflt else Str v
      | None \<Rightarrow> if List.member object_prototype_members key then Inherited key else Str dflt)"

definition getTimezone :: "string \<Rightarrow> jsvalue" where
  "getTimezone st =
     lookup_or
       [(''CA'', ''America/Los_Angeles''), (''NY'', ''America/New_York''),
        (''FL'', ''America/New_York''), (''TX'', ''America/Chicago''),
        (''IL'', ''America/Chicago''), (''AZ'', ''America/Phoenix'')]
       st ''America/New_York''"

definition getUtcOffset :: "string \<Rightarrow> jsvalue" where
  "getUtcOffset st =
     lookup_or
       [(''CA'', ''-8.0''), (''NY'', ''-5.0''), (''FL'', ''-5.0''), (''TX'', ''-6.0''),
        (''IL'', ''-6.0''), (''AZ'', ''-7.0'')]
       st ''-5.0''"

text \<open>\<open>s.replace(a, b)\<close> for a one-character pattern: the first occurrence only.\<close>

fun replace_char :: "char \<Rightarrow> char \<Rightarrow> string \<Rightarrow> string" where
  "replace_char a b [] = []"
| "replace_char a b (c # cs) = (if c = a then b # cs else c # replace_char a b cs)"

definition make_query :: "string \<Rightarrow> string \<Rightarrow> string \<Rightarrow> string" where
  "make_query c st z = c @ '', '' @ st @ '' '' @ z"

definition getMockWeatherData :: "Runtime \<Rightarrow> string \<Rightarrow> string \<Rightarrow> string \<Rightarrow> WeatherData" where
  "getMockWeatherData rt c st z =
     (let coordinates = generateCoordinates c st
      in \<lparr>request = Some
            \<lparr>req_type = ''City'', req_query = make_query c st z,
             req_language = ''en'', req_unit = ''m''\<rparr>,
          location = Some
            \<lparr>name = c,
             country = ''United States of America'',
             region = st,
             lat = number_toString (fst coordinates),
             lon = number_toString (snd coordinates),
             timezone_id = getTimezone st,
             localtime = replace_char (CHR ''T'') (CHR '' '') (take 16 (now_iso rt)),
             localtime_epoch = now_ms rt div 1000,
             utc_offset = getUtcOffset st\<rparr>,
          current = Some
            \<lparr>observation_time = now_locale_time rt,
             temperature = \<lfloor>fl (random rt 0 * 30)\<rfloor> + 10,
             weather_code = 113,
             weather_icons =
               [''https://cdn.worldweatheronline.com/images/wsymbols01_png_64/wsymbol_0001_sunny.png''],
             weather_descriptions = [''Sunny''],
             wind_speed = \<lfloor>fl (random rt 1 * 20)\<rfloor> + 5,
             wind_degree = \<lfloor>fl (random rt 2 * 360)\<rfloor>,
             wind_dir = ''SW'',
             pressure = 1013,
             precip = 0,
             humidity = \<lfloor>fl (random rt 3 * 50)\<rfloor> + 30,
             cloudcover = \<lfloor>fl (random rt 4 * 30)\<rfloor>,
             feelslike = \<lfloor>fl (random rt 5 * 30)\<rfloor> + 10,
             uv_index = \<lfloor>fl (random rt 6 * 10)\<rfloor>,
             visibility = 10,
             is_day = ''yes''\<rparr>\<rparr>)"

text \<open>The \<open>switch\<close> on the provider's error code.\<close>

definition api_error_message :: "string \<Rightarrow> ApiError \<Rightarrow> string" where
  "api_error_message q e =
     (if err_code e = 101 then ''Invalid Weatherstack API key''
      else if err_code e = 429 then ''API request limit reached for this month''
      else if err_code e = 601 then ''Invalid location: '' @ q
      else if err_code e = 615 then ''Weatherstack API request failed''
      else ''Weatherstack API error ('' @ show_int (err_code e) @ ''): '' @ err_info e)"

text \<open>The checks on a response that arrived, in the order of the source.\<close>

definition check_response :: "string \<Rightarrow> ResponseData \<Rightarrow> thrown + WeatherData" where
  "check_response q d =
     (case resp_error d of
        Some e \<Rightarrow> Inl (Error (api_error_message q e))
      | None \<Rightarrow>
          if resp_success d = Some False
          then Inl (Error ''Weatherstack API returned unsuccessful response'')
          else if current (resp_body d) = None
          then Inl (Error ''No current weather data returned from Weatherstack API'')
          else if location (resp_body d) = None
          then Inl (Error ''No location data returned from Weatherstack API'')
          else Inr (resp_body d))"

text \<open>The \<open>catch\<close> branch for an error that \<open>axios.isAxiosError\<close> recognises.\<close>

definition axios_error_message :: "AxiosError \<Rightarrow> string" where
  "axios_error_message e =
     (if ax_code e = Some ''ECONNABORTED'' then ''Weatherstack API timeout - please try again''
      else if ax_status e = Some 401 then ''Unauthorized - Invalid Weatherstack API key''
      else if ax_status e = Some 429 then ''Too many requests - Weatherstack rate limit exceeded''
      else if ax_status e = Some 403
      then ''Forbidden - Current plan does not support this feature''
      else if ax_status e = Some 404 then ''Weatherstack API endpoint not found''
      else ''Weatherstack service error: '' @ ax_message e)"

definition live_request :: "WeatherstackService \<Rightarrow> string \<Rightarrow> HttpRequest" where
  "live_request svc q =
     \<lparr>url = baseUrl svc, access_key = apiKey svc, query = q, units = ''m'', timeout = 15000\<rparr>"

text \<open>
  \<open>getCurrentWeather\<close> returns the network requests it made and its outcome: the
  snapshot, or the value it throws. An error thrown inside the \<open>try\<close> block is caught by
  the same \<open>catch\<close>, is not an axios error, and is thrown again unchanged.
\<close>

definition getCurrentWeather ::
  "WeatherstackService \<Rightarrow> Runtime \<Rightarrow> string \<Rightarrow> string \<Rightarrow> string
     \<Rightarrow> HttpRequest list \<times> (thrown + WeatherData)" where
  "getCurrentWeather svc rt c st z =
     (if apiKey svc = ''demo_key'' \<or> apiKey svc = ''mock''
      then ([], Inr (getMockWeatherData rt c st z))
      else
        let q = make_query c st z;
            req = live_request svc q
        in ([req],
            case axios_get rt req of
              Resolved d \<Rightarrow> check_response q d
            | RejectedAxios e \<Rightarrow> Inl (Error (axios_error_message e))
            | Rejected t \<Rightarrow> Inl t))"

section \<open>Storage\<close>

record Property =
  prop_id :: string
  p_city :: string
  p_street :: string
  p_state :: string
  p_zipCode :: string
  p_lat :: jsnum
  p_long :: jsnum
  p_weatherData :: WeatherData
  createdAt :: int
  updatedAt :: int

text \<open>The arguments of the storage operations, as the service builds them.\<close>

record PropertyCreateInput =
  d_city :: string
  d_street :: string
  d_state :: string
  d_zipCode :: string
  d_lat :: jsnum
  d_long :: jsnum
  d_weatherData :: WeatherData

text \<open>
  \<open>where_city_contains\<close> is \<open>{ contains: c, mode: 'insensitive' }\<close>; the other two are
  equalities. A condition that is absent is \<open>None\<close>.
\<close>

record PropertyWhereInput =
  where_city_contains :: "string option"
  where_state :: "string option"
  where_zipCode :: "string option"

datatype sort_key = SortCreatedAt | SortCity | SortState

datatype sort_order = Asc | Desc

record FindManyArgs =
  fm_where :: PropertyWhereInput
  fm_orderBy :: "sort_key \<times> sort_order"
  fm_take :: int
  fm_skip :: int

text \<open>
  The storage client the service is constructed with: five operations on a database of
  type \<open>'db\<close>, each returning its result or the value it throws, and the database after
  it. Nothing is assumed about them.
\<close>

record 'db PrismaClient =
  property_create :: "PropertyCreateInput \<Rightarrow> 'db \<Rightarrow> (thrown + Property) \<times> 'db"
  property_findMany :: "FindManyArgs \<Rightarrow> 'db \<Rightarrow> (thrown + Property list) \<times> 'db"
  property_findUnique :: "string \<Rightarrow> 'db \<Rightarrow> (thrown + Property option) \<times> 'db"
  property_delete :: "string \<Rightarrow> 'db \<Rightarrow> (thrown + Property) \<times> 'db"
  property_count :: "PropertyWhereInput \<Rightarrow> 'db \<Rightarrow> (thrown + int) \<times> 'db"

section \<open>PropertyService\<close>

text \<open>
  The calls an operation makes to the outside, in order: the adapter as the workflow
  calls it, the network requests the adapter makes, and the five storage operations.
\<close>

datatype event =
  WeatherLookup string string string
| HttpGet HttpRequest
| DbCreate PropertyCreateInput
| DbFindMany FindManyArgs
| DbFindUnique string
| DbDelete string
| DbCount PropertyWhereInput

type_synonym WeatherService =
  "string \<Rightarrow> string \<Rightarrow> string \<Rightarrow> HttpRequest list \<times> (thrown + WeatherData)"

record 'db PropertyService =
  prisma :: "'db PrismaClient"
  weatherService :: WeatherService

text \<open>The state an operation runs in: the database and the log of calls made so far.\<close>

record 'db world =
  db :: 'db
  calls :: "event list"

definition calls_since :: "'db world \<Rightarrow> 'db world \<Rightarrow> event list" where
  "calls_since w w' = drop (length (calls w)) (calls w')"

text \<open>\<open>prefix + (error instanceof Error ? error.message : 'Unknown error')\<close>.\<close>

definition wrap_thrown :: "string \<Rightarrow> thrown \<Rightarrow> thrown" where
  "wrap_thrown pre t = Error (pre @ (case t of Error m \<Rightarrow> m | NonError \<Rightarrow> ''Unknown error''))"

definition str_of :: "string option \<Rightarrow> string" where
  "str_of v = (case v of None \<Rightarrow> [] | Some s \<Rightarrow> s)"

definition invalid_coordinates :: string where
  "invalid_coordinates = ''Invalid coordinates received from weather service''"

text \<open>
  The body of the \<open>try\<close> block of \<open>createProperty\<close>. Reading \<open>weatherData.location.lat\<close>
  of a snapshot without a location section throws a \<open>TypeError\<close>.
\<close>

definition createProperty_try ::
  "'db PropertyService \<Rightarrow> CreatePropertyInput \<Rightarrow> 'db world \<Rightarrow> (thrown + Property) \<times> 'db world" where
  "createProperty_try svc sanitizedInput w =
     (let c = str_of (city sanitizedInput);
          st = str_of (state sanitizedInput);
          z = str_of (zipCode sanitizedInput);
          looked = weatherService svc c st z;
          w1 = w\<lparr>calls := calls w @ WeatherLookup c st z # map HttpGet (fst looked)\<rparr>
      in case snd looked of
           Inl t \<Rightarrow> (Inl t, w1)
         | Inr weatherData \<Rightarrow>
             (case location weatherData of
                None \<Rightarrow>
                  (Inl (Error ''Cannot read properties of undefined (reading 'lat')''), w1)
              | Some loc \<Rightarrow>
                  let lat = parseFloat (lat loc);
                      long = parseFloat (lon loc)
                  in if isNaN lat \<or> isNaN long then (Inl (Error invalid_coordinates), w1)
                     else
                       let data = \<lparr>d_city = c, d_street = str_of (street sanitizedInput),
                                    d_state = st, d_zipCode = z, d_lat = lat, d_long = long,
                                    d_weatherData = weatherData\<rparr>;
                           created = property_create (prisma svc) data (db w1)
                       in (fst created,
                           \<lparr>db = snd created, calls = calls w1 @ [DbCreate data]\<rparr>)))"

definition createProperty ::
  "'db PropertyService \<Rightarrow> CreatePropertyInput \<Rightarrow> 'db world \<Rightarrow> (thrown + Property) \<times> 'db world" where
  "createProperty svc input w =
     (let sanitizedInput = sanitizeInput input;
          validation = validatePropertyInput sanitizedInput
      in if \<not> isValid validation
         then (Inl (Error (''Validation failed: '' @ join '', '' (errors validation))), w)
         else
           case createProperty_try svc sanitizedInput w of
             (Inl t, w') \<Rightarrow> (Inl (wrap_thrown ''Failed to create property: '' t), w')
           | (Inr p, w') \<Rightarrow> (Inr p, w'))"

record PropertyFilters =
  f_city :: "string option"
  f_state :: "string option"
  f_zipCode :: "string option"
  sortBy :: "sort_key option"
  sortOrder :: "sort_order option"
  limit :: "int option"
  offset :: "int option"

text \<open>The default argument \<open>filters = {}\<close>.\<close>

definition no_filters :: PropertyFilters where
  "no_filters =
     \<lparr>f_city = None, f_state = None, f_zipCode = None, sortBy = None, sortOrder = None,
      limit = None, offset = None\<rparr>"

text \<open>\<open>if (v)\<close> for a string that may be missing.\<close>

definition truthy :: "string option \<Rightarrow> bool" where
  "truthy v = (case v of None \<Rightarrow> False | Some s \<Rightarrow> s \<noteq> [])"

definition build_where ::
  "string option \<Rightarrow> string option \<Rightarrow> string option \<Rightarrow> PropertyWhereInput" where
  "build_where c st z =
     \<lparr>where_city_contains = (if truthy c then c else None),
      where_state = (if truthy st then Some (toUpperCase (str_of st)) else None),
      where_zipCode = (if truthy z then z else None)\<rparr>"

definition findMany_args :: "PropertyFilters \<Rightarrow> FindManyArgs" where
  "findMany_args filters =
     (let sortBy' = (case sortBy filters of None \<Rightarrow> SortCreatedAt | Some k \<Rightarrow> k);
          sortOrder' = (case sortOrder filters of None \<Rightarrow> Desc | Some o' \<Rightarrow> o');
          limit' = (case limit filters of None \<Rightarrow> 50 | Some n \<Rightarrow> n);
          offset' = (case offset filters of None \<Rightarrow> 0 | Some n \<Rightarrow> n)
      in \<lparr>fm_where = build_where (f_city filters) (f_state filters) (f_zipCode filters),
          fm_orderBy = (sortBy', sortOrder'),
          fm_take = min limit' 100,
          fm_skip = offset'\<rparr>)"

definition getProperties ::
  "'db PropertyService \<Rightarrow> PropertyFilters \<Rightarrow> 'db world
     \<Rightarrow> (thrown + Property list) \<times> 'db world" where
  "getProperties svc filters w =
     (let args = findMany_args filters;
          found = property_findMany (prisma svc) args (db w);
          w' = \<lparr>db = snd found, calls = calls w @ [DbFindMany args]\<rparr>
      in case fst found of
           Inl t \<Rightarrow> (Inl (wrap_thrown ''Failed to fetch properties: '' t), w')
         | Inr properties \<Rightarrow> (Inr properties, w'))"

definition id_missing :: "string \<Rightarrow> bool" where
  "id_missing i = (i = [] \<or> length (trim i) = 0)"

definition getPropertyById ::
  "'db PropertyService \<Rightarrow> string \<Rightarrow> 'db world \<Rightarrow> (thrown + Property option) \<times> 'db world" where
  "getPropertyById svc i w =
     (if id_missing i then (Inl (Error ''Property ID is required''), w)
      else
        let found = property_findUnique (prisma svc) (trim i) (db w);
            w' = \<lparr>db = snd found, calls = calls w @ [DbFindUnique (trim i)]\<rparr>
        in case fst found of
             Inl t \<Rightarrow> (Inl (wrap_thrown ''Failed to fetch property: '' t), w')
           | Inr property \<Rightarrow> (Inr property, w'))"

definition not_found :: thrown where
  "not_found = Error ''Property not found''"

text \<open>The \<open>catch\<close> of \<open>deleteProperty\<close>: the not-found error passes, any other is wrapped.\<close>

definition delete_catch :: "thrown \<Rightarrow> thrown" where
  "delete_catch t = (if t = not_found then t else wrap_thrown ''Failed to delete property: '' t)"

definition deleteProperty ::
  "'db PropertyService \<Rightarrow> string \<Rightarrow> 'db world \<Rightarrow> (thrown + bool) \<times> 'db world" where
  "deleteProperty svc i w =
     (if id_missing i then (Inl (Error ''Property ID is required''), w)
      else
        let found = property_findUnique (prisma svc) (trim i) (db w);
            w1 = \<lparr>db = snd found, calls = calls w @ [DbFindUnique (trim i)]\<rparr>
        in case fst found of
             Inl t \<Rightarrow> (Inl (delete_catch t), w1)
           | Inr None \<Rightarrow> (Inl (delete_catch not_found), w1)
           | Inr (Some existingProperty) \<Rightarrow>
               let deleted = property_delete (prisma svc) (trim i) (db w1);
                   w2 = \<lparr>db = snd deleted, calls = calls w1 @ [DbDelete (trim i)]\<rparr>
               in case fst deleted of
                    Inl t \<Rightarrow> (Inl (delete_catch t), w2)
                  | Inr _ \<Rightarrow> (Inr True, w2))"

definition getPropertiesCount ::
  "'db PropertyService \<Rightarrow> PropertyFilters \<Rightarrow> 'db world \<Rightarrow> (thrown + int) \<times> 'db world" where
  "getPropertiesCount svc filters w =
     (let wh = build_where (f_city filters) (f_state filters) (f_zipCode filters);
          counted = property_count (prisma svc) wh (db w);
          w' = \<lparr>db = snd counted, calls = calls w @ [DbCount wh]\<rparr>
      in case fst counted of
           Inl t \<Rightarrow> (Inl (wrap_thrown ''Failed to count properties: '' t), w')
         | Inr n \<Rightarrow> (Inr n, w'))"

section \<open>A reference storage\<close>

text \<open>
  The storage is an external collaborator: a relational table behind a client with the
  standard create, find-many, find-unique, delete and count operations, with equality and
  case-insensitive substring predicates. The reference storage below is a table in
  memory with those operations. It numbers the records it creates and stamps them with
  a clock that advances at each insertion. \<open>findMany\<close> filters, orders, skips and takes;
  a negative \<open>take\<close> counts from the end of the order and a negative \<open>skip\<close> is refused,
  as the client does. Strings are ordered by their code units.
\<close>

record mem_db =
  table :: "Property list"
  next_id :: nat
  clock :: int

fun contains :: "string \<Rightarrow> string \<Rightarrow> bool" where
  "contains n [] = (n = [])"
| "contains n (h # hs) = (take (length n) (h # hs) = n \<or> contains n hs)"

definition matches :: "PropertyWhereInput \<Rightarrow> Property \<Rightarrow> bool" where
  "matches wh p =
     ((case where_city_contains wh of
         None \<Rightarrow> True
       | Some c \<Rightarrow> contains (toLowerCase c) (toLowerCase (p_city p)))
      \<and> (case where_state wh of None \<Rightarrow> True | Some st \<Rightarrow> p_state p = st)
      \<and> (case where_zipCode wh of None \<Rightarrow> True | Some z \<Rightarrow> p_zipCode p = z))"

definition order_rows :: "sort_key \<times> sort_order \<Rightarrow> Property list \<Rightarrow> Property list" where
  "order_rows ob ps =
     (let ascending =
            (case fst ob of
               SortCreatedAt \<Rightarrow> sort_key createdAt ps
             | SortCity \<Rightarrow> sort_key p_city ps
             | SortState \<Rightarrow> sort_key p_state ps)
      in case snd ob of Asc \<Rightarrow> ascending | Desc \<Rightarrow> rev ascending)"

definition page :: "int \<Rightarrow> int \<Rightarrow> Property list \<Rightarrow> Property list" where
  "page tk sk ps =
     (if 0 \<le> tk then take (nat tk) (drop (nat sk) ps)
      else rev (take (nat (- tk)) (drop (nat sk) (rev ps))))"

definition mem_create :: "PropertyCreateInput \<Rightarrow> mem_db \<Rightarrow> (thrown + Property) \<times> mem_db" where
  "mem_create data d =
     (let p = \<lparr>prop_id = ''prop_'' @ show_nat (next_id d),
               p_city = d_city data, p_street = d_street data, p_state = d_state data,
               p_zipCode = d_zipCode data, p_lat = d_lat data, p_long = d_long data,
               p_weatherData = d_weatherData data,
               createdAt = clock d, updatedAt = clock d\<rparr>
      in (Inr p, \<lparr>table = table d @ [p], next_id = next_id d + 1, clock = clock d + 1\<rparr>))"

definition mem_findMany :: "FindManyArgs \<Rightarrow> mem_db \<Rightarrow> (thrown + Property list) \<times> mem_db" where
  "mem_findMany args d =
     (if fm_skip args < 0 then (Inl (Error ''Invalid value for skip argument''), d)
      else
        (Inr (page (fm_take args) (fm_skip args)
               (order_rows (fm_orderBy args) (filter (matches (fm_where args)) (table d)))),
         d))"

definition mem_findUnique :: "string \<Rightarrow> mem_db \<Rightarrow> (thrown + Property option) \<times> mem_db" where
  "mem_findUnique i d = (Inr (find (\<lambda>p. prop_id p = i) (table d)), d)"

definition mem_delete :: "string \<Rightarrow> mem_db \<Rightarrow> (thrown + Property) \<times> mem_db" where
  "mem_delete i d =
     (case find (\<lambda>p. prop_id p = i) (table d) of
        None \<Rightarrow> (Inl (Error ''Record to delete does not exist.''), d)
      | Some p \<Rightarrow> (Inr p, d\<lparr>table := filter (\<lambda>q. prop_id q \<noteq> i) (table d)\<rparr>))"

definition mem_count :: "PropertyWhereInput \<Rightarrow> mem_db \<Rightarrow> (thrown + int) \<times> mem_db" where
  "mem_count wh d = (Inr (int (length (filter (matches wh) (table d)))), d)"

definition mem_prisma :: "mem_db PrismaClient" where
  "mem_prisma =
     \<lparr>property_create = mem_create, property_findMany = mem_findMany,
      property_findUnique = mem_findUnique, property_delete = mem_delete,
      property_count = mem_count\<rparr>"

section \<open>Concrete instances\<close>

text \<open>
  The instances the examples run on: a runtime whose network answers every request with
  a fixed response, the adapter built on it, services over the reference storage, and
  a few submissions and databases.
\<close>

definition phoenix_location :: WeatherLocation where
  "phoenix_location =
     \<lparr>name = ''Phoenix'', country = ''United States of America'', region = ''Arizona'',
      lat = ''33.448'', lon = ''-112.074'', timezone_id = Str ''America/Phoenix'',
      localtime = ''2025-08-28 12:00'', localtime_epoch = 1724858400,
      utc_offset = Str ''-7.0''\<rparr>"

definition phoenix_current :: WeatherCurrent where
  "phoenix_current =
     \<lparr>observation_time = ''07:00 PM'', temperature = 25, weather_code = 113,
      weather_icons = [''https://example.com/sunny.png''], weather_descriptions = [''Sunny''],
      wind_speed = 10, wind_degree = 180, wind_dir = ''S'', pressure = 1013, precip = 0,
      humidity = 45, cloudcover = 0, feelslike = 25, uv_index = 8, visibility = 10,
      is_day = ''yes''\<rparr>"

definition phoenix_weather :: WeatherData where
  "phoenix_weather =
     \<lparr>request = Some \<lparr>req_type = ''City'', req_query = ''Phoenix, AZ 85001'',
                       req_language = ''en'', req_unit = ''m''\<rparr>,
      location = Some phoenix_location,
      current = Some phoenix_current\<rparr>"

definition weather_at :: "string \<Rightarrow> string \<Rightarrow> WeatherData" where
  "weather_at la lo = phoenix_weather\<lparr>location := Some (phoenix_location\<lparr>lat := la, lon := lo\<rparr>)\<rparr>"

definition fixed_runtime :: "ResponseData \<Rightarrow> Runtime" where
  "fixed_runtime d =
     \<lparr>axios_get = (\<lambda>_. Resolved d), now_iso = ''2025-08-28T12:00:00.000Z'',
      now_ms = 1724846400000, now_locale_time = ''12:00 PM'', random = (\<lambda>_. 1 / 2)\<rparr>"

definition ok_response :: "WeatherData \<Rightarrow> ResponseData" where
  "ok_response wd = \<lparr>resp_error = None, resp_success = None, resp_body = wd\<rparr>"

definition mem_service :: "WeatherService \<Rightarrow> mem_db PropertyService" where
  "mem_service ws = \<lparr>prisma = mem_prisma, weatherService = ws\<rparr>"

definition service_with :: "string \<Rightarrow> WeatherData \<Rightarrow> mem_db PropertyService" where
  "service_with key wd =
     mem_service (getCurrentWeather (new_WeatherstackService key) (fixed_runtime (ok_response wd)))"

definition phoenix_input :: CreatePropertyInput where
  "phoenix_input =
     \<lparr>city = Some ''Phoenix'', street = Some ''123 Main St'', state = Some ''AZ'',
      zipCode = Some ''85001''\<rparr>"

definition empty_db :: mem_db where
  "empty_db = \<lparr>table = [], next_id = 0, clock = 0\<rparr>"

definition start :: "mem_db world" where
  "start = \<lparr>db = empty_db, calls = []\<rparr>"

definition row :: "nat \<Rightarrow> Property" where
  "row n =
     \<lparr>prop_id = ''prop_'' @ show_nat n, p_city = ''Phoenix'', p_street = ''123 Main St'',
      p_state = ''AZ'', p_zipCode = ''85001'', p_lat = Fin 33, p_long = Fin (- 112),
      p_weatherData = phoenix_weather, createdAt = int n, updatedAt = int n\<rparr>"

definition db_of_size :: "nat \<Rightarrow> mem_db" where
  "db_of_size n = \<lparr>table = map row [0..<n], next_id = n, clock = int n\<rparr>"

section \<open>Properties of the string operations\<close>

lemma trimStart_idem: "trimStart (trimStart s) = trimStart s"
  unfolding trimStart_def by (rule dropWhile_idem)

lemma trimStart_fixed: "trimStart s = s \<longleftrightarrow> (s = [] \<or> \<not> isWhiteSpace (hd s))"
  by (simp add: trimStart_def dropWhile_eq_self_iff)

lemma trimStart_rev_keeps_head:
  assumes "trimStart u = u"
  shows "trimStart (rev (trimStart (rev u))) = rev (trimStart (rev u))"
proof (cases u)
  case Nil
  then show ?thesis by (simp add: trimStart_def)
next
  case (Cons x xs)
  with assms have nw: "\<not> isWhiteSpace x"
    by (simp add: trimStart_fixed)
  have "trimStart (rev u) = trimStart (rev xs) @ [x]"
    using nw Cons by (simp add: trimStart_def dropWhile_append3)
  then show ?thesis
    using nw by (simp add: trimStart_def)
qed

lemma trimStart_trim: "trimStart (trim s) = trim s"
  unfolding trim_def by (rule trimStart_rev_keeps_head) (rule trimStart_idem)

lemma trim_idem: "trim (trim s) = trim s"
proof -
  have "trim (trim s) = rev (trimStart (rev (trim s)))"
    by (simp add: trim_def [of "trim s"] trimStart_trim)
  also have "rev (trim s) = trimStart (rev (trimStart s))"
    by (simp add: trim_def)
  finally show ?thesis
    by (simp add: trimStart_idem trim_def)
qed

lemma trim_Nil: "trim [] = []"
  by (simp add: trim_def trimStart_def)

text \<open>
  What the proofs use of the upper-casing: a character becomes a non-empty string that
  reads the same in both directions, whose characters are white space exactly when the
  character is, and are left alone by a second upper-casing.
\<close>

lemma upper_char_cases:
  "upper_char c = [c] \<or> upper_char c = ''SS''
   \<or> (upper_char c = [char_of (of_char c - 32 :: nat)]
       \<and> ((97 \<le> (of_char c :: nat) \<and> (of_char c :: nat) \<le> 122)
          \<or> (224 \<le> (of_char c :: nat) \<and> (of_char c :: nat) \<le> 254)))"
  by (simp add: upper_char_def Let_def)

lemma upper_char_upper:
  assumes "(97 \<le> n \<and> n \<le> 122) \<or> (224 \<le> n \<and> n \<le> 254)"
  shows "upper_char (char_of (n - 32 :: nat)) = [char_of (n - 32)]"
    and "\<not> isWhiteSpace (char_of (n - 32))"
proof -
  from assms have "(n - 32) mod 256 = n - 32"
    by auto
  then have code: "(of_char (char_of (n - 32)) :: nat) = n - 32"
    by simp
  from assms show "upper_char (char_of (n - 32)) = [char_of (n - 32)]"
    unfolding upper_char_def Let_def code by auto
  from assms show "\<not> isWhiteSpace (char_of (n - 32))"
    unfolding isWhiteSpace_def code by auto
qed

lemma upper_char_S: "upper_char CHR ''S'' = ''S''" "\<not> isWhiteSpace CHR ''S''"
  by (simp_all add: upper_char_def isWhiteSpace_def)

lemma upper_char_not_Nil: "upper_char c \<noteq> []"
  using upper_char_cases [of c] by auto

lemma upper_char_rev: "rev (upper_char c) = upper_char c"
  using upper_char_cases [of c] by auto

lemma upper_char_fixed: "d \<in> set (upper_char c) \<Longrightarrow> upper_char d = [d]"
  using upper_char_cases [of c] upper_char_upper(1) [of "of_char c"] upper_char_S(1)
  by auto

lemma upper_char_white: "isWhiteSpace c \<Longrightarrow> upper_char c = [c]"
  by (auto simp: upper_char_def isWhiteSpace_def Let_def)

lemma upper_char_not_white:
  "\<not> isWhiteSpace c \<Longrightarrow> d \<in> set (upper_char c) \<Longrightarrow> \<not> isWhiteSpace d"
  using upper_char_cases [of c] upper_char_upper(2) [of "of_char c"] upper_char_S(2)
  by auto

lemma toUpperCase_Nil: "toUpperCase [] = []"
  by (simp add: toUpperCase_def)

lemma toUpperCase_Cons: "toUpperCase (c # s) = upper_char c @ toUpperCase s"
  by (simp add: toUpperCase_def)

lemma toUpperCase_append: "toUpperCase (s @ t) = toUpperCase s @ toUpperCase t"
  by (simp add: toUpperCase_def)

lemma toUpperCase_fixed: "(\<And>d. d \<in> set s \<Longrightarrow> upper_char d = [d]) \<Longrightarrow> toUpperCase s = s"
  by (induction s) (simp_all add: toUpperCase_Nil toUpperCase_Cons)

lemma toUpperCase_idem: "toUpperCase (toUpperCase s) = toUpperCase s"
proof (induction s)
  case Nil
  then show ?case by (simp add: toUpperCase_Nil)
next
  case (Cons c s)
  have "toUpperCase (upper_char c) = upper_char c"
    by (rule toUpperCase_fixed) (rule upper_char_fixed)
  with Cons show ?case
    by (simp add: toUpperCase_Cons toUpperCase_append)
qed

lemma toUpperCase_trimStart: "toUpperCase (trimStart s) = trimStart (toUpperCase s)"
proof (induction s)
  case Nil
  then show ?case by (simp add: toUpperCase_Nil trimStart_def)
next
  case (Cons c s)
  show ?case
  proof (cases "isWhiteSpace c")
    case True
    with Cons show ?thesis
      by (simp add: toUpperCase_Cons upper_char_white trimStart_def)
  next
    case False
    obtain d ds where u: "upper_char c = d # ds"
      using upper_char_not_Nil [of c] by (cases "upper_char c") auto
    with False have "\<not> isWhiteSpace d"
      using upper_char_not_white [of c d] by simp
    with False u show ?thesis
      by (simp add: toUpperCase_Cons trimStart_def)
  qed
qed

lemma toUpperCase_rev: "toUpperCase (rev s) = rev (toUpperCase s)"
  by (induction s)
    (simp_all add: toUpperCase_Nil toUpperCase_Cons toUpperCase_append upper_char_rev)

lemma toUpperCase_trim: "toUpperCase (trim s) = trim (toUpperCase s)"
  by (simp add: trim_def toUpperCase_rev toUpperCase_trimStart)

lemma upper_trim_idem: "trim (toUpperCase (trim (toUpperCase s))) = trim (toUpperCase s)"
  by (simp add: toUpperCase_trim toUpperCase_idem trim_idem)

lemma trim_or_empty_idem: "trim (trim_or_empty v) = trim_or_empty v"
  by (cases v) (simp_all add: trim_or_empty_def trim_Nil trim_idem)

lemma upper_trim_or_empty_idem:
  "trim (toUpperCase (upper_trim_or_empty v)) = upper_trim_or_empty v"
  by (cases v) (simp_all add: upper_trim_or_empty_def trim_Nil toUpperCase_Nil upper_trim_idem)

section \<open>The validator\<close>

text \<open>
  C7. Sanitization is idempotent: sanitizing a sanitized submission gives the same
  submission, whatever the submission, missing fields included. For the state this
  rests on the four properties of the upper-casing proved above (each character becomes
  a non-empty palindrome of characters that keep its white-space class and that a second
  upper-casing leaves alone), which also hold of the two upper cases U+039C and U+0178
  that lie outside the strings of the embedding.
\<close>

theorem sanitizeInput_idempotent: "sanitizeInput (sanitizeInput x) = sanitizeInput x"
  by (simp add: sanitizeInput_def trim_or_empty_idem upper_trim_or_empty_idem
      trim_or_empty_def [of "Some s" for s] upper_trim_or_empty_def [of "Some s" for s])

text \<open>
  C9. The result of the validator is consistent: the flag \<open>isValid\<close> is true exactly when
  the list of errors is empty, and the list never has more than four entries.
\<close>

theorem validatePropertyInput_consistent:
  "isValid (validatePropertyInput x) = (errors (validatePropertyInput x) = [])
   \<and> length (errors (validatePropertyInput x)) \<le> 4"
  by (simp add: validatePropertyInput_def Let_def push_if_def)

section \<open>Rounding to the nearest double\<close>

lemma quotient_of_abs_pos:
  assumes "x \<noteq> 0"
  shows "0 < fst (quotient_of \<bar>x\<bar>)" and "0 < snd (quotient_of \<bar>x\<bar>)"
    and "\<bar>x\<bar> = of_int (fst (quotient_of \<bar>x\<bar>)) / of_int (snd (quotient_of \<bar>x\<bar>))"
proof -
  obtain a b where ab: "quotient_of \<bar>x\<bar> = (a, b)"
    by (cases "quotient_of \<bar>x\<bar>")
  then have b: "0 < b" and x: "\<bar>x\<bar> = of_int a / of_int b"
    by (simp_all add: quotient_of_denom_pos quotient_of_div)
  from assms have "0 < \<bar>x\<bar>"
    by simp
  with x b have "0 < a"
    by (simp add: zero_less_divide_iff)
  with ab b x show "0 < fst (quotient_of \<bar>x\<bar>)" and "0 < snd (quotient_of \<bar>x\<bar>)"
    and "\<bar>x\<bar> = of_int (fst (quotient_of \<bar>x\<bar>)) / of_int (snd (quotient_of \<bar>x\<bar>))"
    by simp_all
qed

lemma powi_nat: "0 \<le> n \<Longrightarrow> (2 :: rat) powi n = 2 ^ nat n"
  by (simp add: power_int_def)

lemma bitlen_powi_bounds:
  assumes "0 < a"
  shows "2 powi (bitlen a - 1) \<le> (of_int a :: rat)" and "(of_int a :: rat) < 2 powi (bitlen a)"
proof -
  from assms have pos: "0 \<le> bitlen a - 1" "0 \<le> bitlen a"
    by (simp_all add: bitlen_alt_def)
  from bitlen_bounds [OF assms]
  have lo: "2 ^ nat (bitlen a - 1) \<le> a" and hi: "a < 2 ^ nat (bitlen a)"
    by simp_all
  have "(of_int (2 ^ nat (bitlen a - 1)) :: rat) \<le> of_int a"
    using lo by (simp only: of_int_le_iff)
  then show "2 powi (bitlen a - 1) \<le> (of_int a :: rat)"
    by (simp add: powi_nat [OF pos(1)])
  have "(of_int a :: rat) < of_int (2 ^ nat (bitlen a))"
    using hi by (simp only: of_int_less_iff)
  then show "(of_int a :: rat) < 2 powi (bitlen a)"
    by (simp add: powi_nat [OF pos(2)])
qed

text \<open>\<open>expo x\<close> is the binary exponent of \<open>x\<close>.\<close>

lemma expo_bounds:
  assumes "x \<noteq> 0"
  shows "2 powi (expo x) \<le> \<bar>x\<bar>" and "\<bar>x\<bar> < 2 powi (expo x + 1)"
proof -
  define a where "a = fst (quotient_of \<bar>x\<bar>)"
  define b where "b = snd (quotient_of \<bar>x\<bar>)"
  define d where "d = bitlen a - bitlen b"
  from quotient_of_abs_pos [OF assms]
  have a: "0 < a" and b: "0 < b" and x: "\<bar>x\<bar> = of_int a / of_int b"
    by (simp_all add: a_def b_def)
  have e: "expo x = (if 2 powi d \<le> \<bar>x\<bar> then d else d - 1)"
    by (simp add: expo_def Let_def a_def b_def d_def)
  have two: "(2 :: rat) \<noteq> 0 \<or> m \<noteq> n" for m n :: int
    by simp
  have "(2 :: rat) powi (d - 1) = 2 powi (bitlen a - 1) / 2 powi (bitlen b)"
    unfolding d_def using power_int_diff [OF two, of "bitlen a - 1" "bitlen b"]
    by (simp add: algebra_simps)
  also have "\<dots> \<le> of_int a / of_int b"
    using bitlen_powi_bounds [OF a] bitlen_powi_bounds [OF b] a b
    by (intro frac_le) (simp_all add: zero_less_power_int less_imp_le)
  finally have low: "2 powi (d - 1) \<le> \<bar>x\<bar>"
    by (simp add: x)
  have "of_int a / of_int b < (2 :: rat) powi (bitlen a) / 2 powi (bitlen b - 1)"
    using bitlen_powi_bounds [OF a] bitlen_powi_bounds [OF b] a
    by (intro frac_less) (simp_all add: zero_less_power_int)
  also have "\<dots> = 2 powi (d + 1)"
    unfolding d_def using power_int_diff [OF two, of "bitlen a" "bitlen b - 1"]
    by (simp add: algebra_simps)
  finally have high: "\<bar>x\<bar> < 2 powi (d + 1)"
    by (simp add: x)
  from low high show "2 powi (expo x) \<le> \<bar>x\<bar>" and "\<bar>x\<bar> < 2 powi (expo x + 1)"
    by (auto simp: e)
qed

lemma round_half_even_cases:
  "round_half_even y = \<lfloor>y\<rfloor> \<and> y - of_int \<lfloor>y\<rfloor> \<le> 1 / 2
   \<or> round_half_even y = \<lfloor>y\<rfloor> + 1 \<and> 1 / 2 \<le> y - of_int \<lfloor>y\<rfloor>"
  by (auto simp: round_half_even_def Let_def)

lemma round_half_even_error: "\<bar>of_int (round_half_even y) - y\<bar> \<le> 1 / 2"
proof -
  have "of_int \<lfloor>y\<rfloor> \<le> y" and "y < of_int \<lfloor>y\<rfloor> + 1"
    by linarith+
  with round_half_even_cases [of y] show ?thesis
    by (auto simp: abs_le_iff)
qed

lemma round_half_even_ge: "of_int n \<le> y \<Longrightarrow> n \<le> round_half_even y"
proof -
  assume "of_int n \<le> y"
  then have "n \<le> \<lfloor>y\<rfloor>"
    by (simp add: le_floor_iff)
  with round_half_even_cases [of y] show ?thesis
    by auto
qed

lemma round_half_even_le: "y \<le> of_int n \<Longrightarrow> round_half_even y \<le> n"
proof -
  assume le: "y \<le> of_int n"
  show ?thesis
  proof (cases "y = of_int n")
    case True
    then show ?thesis
      by (simp add: round_half_even_def)
  next
    case False
    with le have "y < of_int n"
      by simp
    then have "\<lfloor>y\<rfloor> < n"
      by (simp add: floor_less_iff)
    with round_half_even_cases [of y] show ?thesis
      by auto
  qed
qed

lemma fl_quantum:
  assumes "x \<noteq> 0"
  obtains q where "0 < q" and "fl x = of_int (round_half_even (x / q)) * q"
    and "q = 2 powi (max (expo x) (- 1022)) / 2 ^ 52"
proof -
  define q :: rat where "q = 2 powi (max (expo x) (- 1022) - 52)"
  have "0 < q"
    by (simp add: q_def zero_less_power_int)
  moreover have "fl x = of_int (round_half_even (x / q)) * q"
    using assms by (simp add: fl_def q_def Let_def)
  moreover have "q = 2 powi (max (expo x) (- 1022)) / 2 ^ 52"
    unfolding q_def by (subst power_int_diff) simp_all
  ultimately show thesis
    by (rule that)
qed

text \<open>The relative error of a rounding is at most \<open>2^(-53)\<close> in the normal range.\<close>

lemma fl_error:
  assumes "2 powi (- 1022) \<le> \<bar>x\<bar>"
  shows "\<bar>fl x - x\<bar> \<le> \<bar>x\<bar> / 2 ^ 53"
proof -
  have "(0 :: rat) < 2 powi (- 1022)"
    by (simp add: zero_less_power_int)
  with assms have nz: "x \<noteq> 0"
    by auto
  from fl_quantum [OF nz] obtain q where q: "0 < q"
    and f: "fl x = of_int (round_half_even (x / q)) * q"
    and qe: "q = 2 powi (max (expo x) (- 1022)) / 2 ^ 52"
    by blast
  have "fl x - x = (of_int (round_half_even (x / q)) - x / q) * q"
    using q by (simp add: f algebra_simps)
  then have "\<bar>fl x - x\<bar> = \<bar>of_int (round_half_even (x / q)) - x / q\<bar> * q"
    using q by (simp add: abs_mult)
  also have "\<dots> \<le> 1 / 2 * q"
    using q round_half_even_error [of "x / q"] by (intro mult_right_mono) simp_all
  also have "\<dots> = 2 powi (max (expo x) (- 1022)) / 2 ^ 53"
    by (simp add: qe)
  also have "\<dots> \<le> \<bar>x\<bar> / 2 ^ 53"
  proof -
    have "(2 :: rat) powi (max (expo x) (- 1022)) \<le> \<bar>x\<bar>"
      using expo_bounds(1) [OF nz] assms by (simp add: max_def)
    then show ?thesis
      by (simp add: divide_right_mono)
  qed
  finally show ?thesis .
qed

lemma normal_range: "(2 :: rat) powi (- 1022) \<le> 1 / 1000"
proof -
  have "(2 :: rat) powi (- 1022) \<le> 2 powi (- 10)"
    by (rule power_int_increasing) simp_all
  also have "\<dots> \<le> 1 / 1000"
    by (simp add: power_int_minus_divide)
  finally show ?thesis .
qed

lemma fl_zero: "fl 0 = 0"
  by (simp add: fl_def)

lemma fl_near:
  assumes "x = 0 \<or> 1 / 1000 \<le> \<bar>x\<bar>" and "\<bar>x\<bar> \<le> B"
  shows "\<bar>fl x - x\<bar> \<le> B / 2 ^ 53"
proof (cases "x = 0")
  case True
  with assms(2) show ?thesis
    by (simp add: fl_zero)
next
  case False
  with assms(1) normal_range have "2 powi (- 1022) \<le> \<bar>x\<bar>"
    by linarith
  then have "\<bar>fl x - x\<bar> \<le> \<bar>x\<bar> / 2 ^ 53"
    by (rule fl_error)
  also have "\<dots> \<le> B / 2 ^ 53"
    using assms(2) by (simp add: divide_right_mono)
  finally show ?thesis .
qed

text \<open>An integer below \<open>2^53\<close> is a double: rounding does not cross it.\<close>

lemma fl_integer_quantum:
  assumes "x \<noteq> 0" and "\<bar>x\<bar> < 2 ^ 53"
  obtains n :: nat where "fl x = of_int (round_half_even (x * 2 ^ n)) / 2 ^ n"
proof -
  have "expo x < 53"
  proof (rule ccontr)
    assume "\<not> expo x < 53"
    then have "(2 :: rat) powi 53 \<le> 2 powi (expo x)"
      by (intro power_int_increasing) simp_all
    with expo_bounds(1) [OF assms(1)] assms(2) show False
      by simp
  qed
  then have m: "max (expo x) (- 1022) - 52 \<le> 0"
    by simp
  define n where "n = nat (52 - max (expo x) (- 1022))"
  have "(2 :: rat) powi (max (expo x) (- 1022) - 52) = 2 powi (- int n)"
    using m by (simp add: n_def)
  also have "\<dots> = 1 / 2 ^ n"
    by (simp add: power_int_minus_divide power_int_of_nat)
  finally have "fl x = of_int (round_half_even (x * 2 ^ n)) / 2 ^ n"
    using assms(1) by (simp add: fl_def Let_def)
  then show thesis
    by (rule that)
qed

lemma fl_ge_integer:
  assumes "of_int i \<le> x" and "\<bar>x\<bar> < 2 ^ 53"
  shows "of_int i \<le> fl x"
proof (cases "x = 0")
  case True
  with assms(1) show ?thesis
    by (simp add: fl_zero)
next
  case False
  from fl_integer_quantum [OF False assms(2)] obtain n :: nat
    where f: "fl x = of_int (round_half_even (x * 2 ^ n)) / 2 ^ n"
    by blast
  have "(of_int (i * 2 ^ n) :: rat) \<le> x * 2 ^ n"
    using assms(1) by simp
  then have "i * 2 ^ n \<le> round_half_even (x * 2 ^ n)"
    by (rule round_half_even_ge)
  then have "(of_int (i * 2 ^ n) :: rat) \<le> of_int (round_half_even (x * 2 ^ n))"
    by (simp only: of_int_le_iff)
  then show ?thesis
    by (simp add: f le_divide_eq)
qed

section \<open>The synthetic coordinates\<close>

lemma js_rem_abs: "0 < b \<Longrightarrow> \<bar>js_rem a b\<bar> = \<bar>a\<bar> mod b"
  by (cases "a = 0") (simp_all add: js_rem_def abs_mult abs_sgn_eq)

lemma thousandth: "0 \<le> k \<Longrightarrow> (of_int k / 1000 :: rat) = 0 \<or> 1 / 1000 \<le> \<bar>of_int k / 1000 :: rat\<bar>"
proof -
  assume "0 \<le> k"
  then have "k = 0 \<or> 1 \<le> k"
    by linarith
  then show ?thesis
  proof
    assume "k = 0"
    then show ?thesis by simp
  next
    assume "1 \<le> k"
    then have "(1 :: rat) \<le> of_int k"
      by simp
    then show ?thesis by simp
  qed
qed

lemma ulp_half_small: "0 < ulp_half" "ulp_half \<le> 1 / 1000000000000"
  by (simp_all add: ulp_half_def)

lemma fl_within:
  assumes "x = 0 \<or> 1 / 1000 \<le> \<bar>x\<bar>" and "\<bar>x\<bar> \<le> B"
  shows "x - B * ulp_half \<le> fl x" and "fl x \<le> x + B * ulp_half"
proof -
  from fl_near [OF assms] have "\<bar>fl x - x\<bar> \<le> B * ulp_half"
    by (simp add: ulp_half_def)
  then show "x - B * ulp_half \<le> fl x" and "fl x \<le> x + B * ulp_half"
    by linarith+
qed

text \<open>
  The rounding errors of the three operations before \<open>Math.round\<close> stay far below one
  half, so \<open>Math.round\<close> returns the whole number of thousandths that was meant.
\<close>

lemma lat_round:
  assumes "0 \<le> k" and "k < 25000"
  shows "math_round (fl (fl (24 + fl (of_int k / 1000)) * 1000)) = 24000 + k"
proof -
  define r :: rat where "r = of_int k / 1000"
  define a where "a = fl r"
  define lat where "lat = fl (24 + a)"
  define p where "p = fl (lat * 1000)"
  note u = ulp_half_small
  have r: "0 \<le> r" "r \<le> 25"
    using assms by (simp_all add: r_def)
  have r0: "r = 0 \<or> 1 / 1000 \<le> \<bar>r\<bar>"
    unfolding r_def by (rule thousandth) (rule assms(1))
  have a: "r - 25 * ulp_half \<le> a" "a \<le> r + 25 * ulp_half"
    unfolding a_def using r by (intro fl_within r0; simp)+
  have s: "24 + a = 0 \<or> 1 / 1000 \<le> \<bar>24 + a\<bar>" "\<bar>24 + a\<bar> \<le> 50"
    using a r u by linarith+
  have lat: "24 + a - 50 * ulp_half \<le> lat" "lat \<le> 24 + a + 50 * ulp_half"
    unfolding lat_def by (rule fl_within [OF s])+
  have t: "lat * 1000 = 0 \<or> 1 / 1000 \<le> \<bar>lat * 1000\<bar>" "\<bar>lat * 1000\<bar> \<le> 50001"
    using lat a r u by linarith+
  have p: "lat * 1000 - 50001 * ulp_half \<le> p" "p \<le> lat * 1000 + 50001 * ulp_half"
    unfolding p_def by (rule fl_within [OF t])+
  have n: "of_int (24000 + k) = 24000 + r * 1000"
    by (simp add: r_def)
  have "\<lfloor>p + 1 / 2\<rfloor> = 24000 + k"
  proof (rule floor_unique)
    show "of_int (24000 + k) \<le> p + 1 / 2"
      unfolding n using p lat a u by linarith
    show "p + 1 / 2 < of_int (24000 + k) + 1"
      unfolding n using p lat a u by linarith
  qed
  then show ?thesis
    by (simp add: math_round_def p_def lat_def a_def r_def)
qed

lemma long_round:
  assumes "0 \<le> j" and "j < 59000"
  shows "math_round (fl (fl (- 125 + fl (of_int j / 1000)) * 1000)) = j - 125000"
proof -
  define r :: rat where "r = of_int j / 1000"
  define a where "a = fl r"
  define long where "long = fl (- 125 + a)"
  define p where "p = fl (long * 1000)"
  note u = ulp_half_small
  have r: "0 \<le> r" "r \<le> 59"
    using assms by (simp_all add: r_def)
  have r0: "r = 0 \<or> 1 / 1000 \<le> \<bar>r\<bar>"
    unfolding r_def by (rule thousandth) (rule assms(1))
  have a: "r - 59 * ulp_half \<le> a" "a \<le> r + 59 * ulp_half"
    unfolding a_def using r by (intro fl_within r0; simp)+
  have s: "- 125 + a = 0 \<or> 1 / 1000 \<le> \<bar>- 125 + a\<bar>" "\<bar>- 125 + a\<bar> \<le> 126"
    using a r u by linarith+
  have long: "- 125 + a - 126 * ulp_half \<le> long" "long \<le> - 125 + a + 126 * ulp_half"
    unfolding long_def by (rule fl_within [OF s])+
  have t: "long * 1000 = 0 \<or> 1 / 1000 \<le> \<bar>long * 1000\<bar>" "\<bar>long * 1000\<bar> \<le> 126000"
    using long a r u by linarith+
  have p: "long * 1000 - 126000 * ulp_half \<le> p" "p \<le> long * 1000 + 126000 * ulp_half"
    unfolding p_def by (rule fl_within [OF t])+
  have n: "of_int (j - 125000) = r * 1000 - 125000"
    by (simp add: r_def)
  have "\<lfloor>p + 1 / 2\<rfloor> = j - 125000"
  proof (rule floor_unique)
    show "of_int (j - 125000) \<le> p + 1 / 2"
      unfolding n using p long a u by linarith
    show "p + 1 / 2 < of_int (j - 125000) + 1"
      unfolding n using p long a u by linarith
  qed
  then show ?thesis
    by (simp add: math_round_def p_def long_def a_def r_def)
qed

lemma generateCoordinates_eq:
  "generateCoordinates c st =
     (fl (of_int (24000 + \<bar>js_rem (city_hash c) 25000\<bar>) / 1000),
      fl (of_int (\<bar>js_rem (city_hash c) 59000\<bar> - 125000) / 1000))"
proof -
  have "0 \<le> \<bar>js_rem (city_hash c) 25000\<bar>" "\<bar>js_rem (city_hash c) 25000\<bar> < 25000"
    and "0 \<le> \<bar>js_rem (city_hash c) 59000\<bar>" "\<bar>js_rem (city_hash c) 59000\<bar> < 59000"
    by (simp_all add: js_rem_abs)
  then show ?thesis
    unfolding generateCoordinates_def Let_def by (simp only: lat_round long_round)
qed

lemma city_hash_lower: "toLowerCase c = toLowerCase c' \<Longrightarrow> city_hash c = city_hash c'"
  by (simp add: city_hash_def)

lemma fl_thousandths_lat:
  assumes "24000 \<le> n" and "n < 49000"
  shows "24 \<le> fl (of_int n / 1000)" and "fl (of_int n / 1000) < 49"
proof -
  define x :: rat where "x = of_int n / 1000"
  have x: "24 \<le> x" "x \<le> 48999 / 1000"
    using assms by (simp_all add: x_def le_divide_eq divide_le_eq)
  have "of_int 24 \<le> fl x"
    using x by (intro fl_ge_integer) simp_all
  then show "24 \<le> fl (of_int n / 1000)"
    by (simp add: x_def)
  have "fl x \<le> x + 49 * ulp_half"
    using x by (intro fl_within) simp_all
  with x ulp_half_small show "fl (of_int n / 1000) < 49"
    unfolding x_def by linarith
qed

lemma fl_thousandths_long:
  assumes "- 125000 \<le> n" and "n < - 66000"
  shows "- 125 \<le> fl (of_int n / 1000)" and "fl (of_int n / 1000) < - 66"
proof -
  define x :: rat where "x = of_int n / 1000"
  have x: "- 125 \<le> x" "x \<le> - 66001 / 1000"
    using assms by (simp_all add: x_def le_divide_eq divide_le_eq)
  have "of_int (- 125) \<le> fl x"
    using x by (intro fl_ge_integer) simp_all
  then show "- 125 \<le> fl (of_int n / 1000)"
    by (simp add: x_def)
  have "fl x \<le> x + 125 * ulp_half"
    using x by (intro fl_within) simp_all
  with x ulp_half_small show "fl (of_int n / 1000) < - 66"
    unfolding x_def by linarith
qed

text \<open>
  C8. For every city string the derived latitude lies in [24, 49) and the derived
  longitude in [-125, -66). Each is rounded to three decimals: \<open>Math.round\<close> recovers the
  whole number of thousandths from the rounded double arithmetic before it, and the
  coordinate is the double nearest to that number of thousandths, 24000 plus the
  remainder of the hash by 25000 for the latitude and the remainder by 59000 minus
  125000 for the longitude. Two city strings with the same lower-case form get the same
  coordinates, whatever the state passed with them.
\<close>

theorem generateCoordinates_range:
  "24 \<le> fst (generateCoordinates c st) \<and> fst (generateCoordinates c st) < 49
   \<and> - 125 \<le> snd (generateCoordinates c st) \<and> snd (generateCoordinates c st) < - 66
   \<and> math_round (fl (fl (24 + fl (of_int \<bar>js_rem (city_hash c) 25000\<bar> / 1000)) * 1000))
       = 24000 + \<bar>js_rem (city_hash c) 25000\<bar>
   \<and> math_round (fl (fl (- 125 + fl (of_int \<bar>js_rem (city_hash c) 59000\<bar> / 1000)) * 1000))
       = \<bar>js_rem (city_hash c) 59000\<bar> - 125000
   \<and> fst (generateCoordinates c st)
       = fl (of_int (24000 + \<bar>js_rem (city_hash c) 25000\<bar>) / 1000)
   \<and> snd (generateCoordinates c st)
       = fl (of_int (\<bar>js_rem (city_hash c) 59000\<bar> - 125000) / 1000)
   \<and> (toLowerCase c = toLowerCase c' \<longrightarrow> generateCoordinates c st = generateCoordinates c' st')"
proof -
  define k where "k = \<bar>js_rem (city_hash c) 25000\<bar>"
  define j where "j = \<bar>js_rem (city_hash c) 59000\<bar>"
  have k: "0 \<le> k" "k < 25000" and j: "0 \<le> j" "j < 59000"
    by (simp_all add: k_def j_def js_rem_abs)
  have g: "generateCoordinates c st = (fl (of_int (24000 + k) / 1000), fl (of_int (j - 125000) / 1000))"
    by (simp add: generateCoordinates_eq k_def j_def)
  have "24 \<le> fl (of_int (24000 + k) / 1000)" and "fl (of_int (24000 + k) / 1000) < 49"
    using k by (intro fl_thousandths_lat; simp)+
  moreover have "- 125 \<le> fl (of_int (j - 125000) / 1000)"
    and "fl (of_int (j - 125000) / 1000) < - 66"
    using j by (intro fl_thousandths_long; simp)+
  moreover note lat_round [OF k] long_round [OF j]
  moreover have
    "toLowerCase c = toLowerCase c' \<longrightarrow> generateCoordinates c st = generateCoordinates c' st'"
    by (auto simp: generateCoordinates_eq dest: city_hash_lower)
  ultimately show ?thesis
    unfolding g fst_conv snd_conv k_def [symmetric] j_def [symmetric] by blast
qed

theorem generateCoordinates_range_witness:
  "toLowerCase ''Phoenix'' = toLowerCase ''PHOENIX''
   \<and> generateCoordinates ''Phoenix'' ''AZ'' = generateCoordinates ''PHOENIX'' ''CA''
   \<and> 24 \<le> fst (generateCoordinates ''Phoenix'' ''AZ'')
   \<and> fst (generateCoordinates ''Phoenix'' ''AZ'') < 49
   \<and> - 125 \<le> snd (generateCoordinates ''Phoenix'' ''AZ'')
   \<and> snd (generateCoordinates ''Phoenix'' ''AZ'') < - 66"
proof -
  have h: "toLowerCase ''Phoenix'' = toLowerCase ''PHOENIX''"
    by code_simp
  from generateCoordinates_range [of "''Phoenix''" "''AZ''" "''PHOENIX''" "''CA''"] h
  show ?thesis by blast
qed

section \<open>The create workflow\<close>

lemma calls_since_append: "calls w' = calls w @ es \<Longrightarrow> calls_since w w' = es"
  by (simp add: calls_since_def)

lemma sanitized_fields:
  "str_of (city (sanitizeInput input)) = trim_or_empty (city input)"
  "str_of (street (sanitizeInput input)) = trim_or_empty (street input)"
  "str_of (state (sanitizeInput input)) = upper_trim_or_empty (state input)"
  "str_of (zipCode (sanitizeInput input)) = trim_or_empty (zipCode input)"
  by (simp_all add: sanitizeInput_def str_of_def)

lemma createProperty_try_nan:
  assumes "snd (weatherService svc (str_of (city s)) (str_of (state s)) (str_of (zipCode s))) = Inr wd"
    and "location wd = Some loc"
    and "isNaN (parseFloat (lat loc)) \<or> isNaN (parseFloat (lon loc))"
  shows "createProperty_try svc s w =
           (Inl (Error invalid_coordinates),
            w\<lparr>calls := calls w
                 @ WeatherLookup (str_of (city s)) (str_of (state s)) (str_of (zipCode s))
                 # map HttpGet (fst (weatherService svc (str_of (city s)) (str_of (state s))
                     (str_of (zipCode s))))\<rparr>)"
  using assms by (simp add: createProperty_try_def Let_def)

lemma createProperty_try_create:
  assumes "snd (weatherService svc (str_of (city s)) (str_of (state s)) (str_of (zipCode s))) = Inr wd"
    and "location wd = Some loc"
    and "\<not> isNaN (parseFloat (lat loc))" and "\<not> isNaN (parseFloat (lon loc))"
  shows "calls (snd (createProperty_try svc s w)) =
           calls w
           @ WeatherLookup (str_of (city s)) (str_of (state s)) (str_of (zipCode s))
           # map HttpGet (fst (weatherService svc (str_of (city s)) (str_of (state s))
               (str_of (zipCode s))))
           @ [DbCreate \<lparr>d_city = str_of (city s), d_street = str_of (street s),
                 d_state = str_of (state s), d_zipCode = str_of (zipCode s),
                 d_lat = parseFloat (lat loc), d_long = parseFloat (lon loc),
                 d_weatherData = wd\<rparr>]"
  using assms by (simp add: createProperty_try_def Let_def)

lemma createProperty_try_DbCreate:
  assumes "DbCreate d \<in> set (calls_since w (snd (createProperty_try svc s w)))"
  shows "\<exists>wd loc.
           snd (weatherService svc (str_of (city s)) (str_of (state s)) (str_of (zipCode s))) = Inr wd
           \<and> location wd = Some loc
           \<and> \<not> isNaN (parseFloat (lat loc)) \<and> \<not> isNaN (parseFloat (lon loc))
           \<and> d_lat d = parseFloat (lat loc) \<and> d_long d = parseFloat (lon loc)
           \<and> d_weatherData d = wd"
  using assms
  by (auto simp: createProperty_try_def Let_def calls_since_def
      split: sum.splits option.splits if_splits)

lemma createProperty_valid:
  assumes "isValid (validatePropertyInput (sanitizeInput input))"
  shows "snd (createProperty svc input w) = snd (createProperty_try svc (sanitizeInput input) w)"
    and "fst (createProperty svc input w) =
           (case fst (createProperty_try svc (sanitizeInput input) w) of
              Inl t \<Rightarrow> Inl (wrap_thrown ''Failed to create property: '' t)
            | Inr p \<Rightarrow> Inr p)"
  using assms by (auto simp: createProperty_def Let_def split: prod.splits sum.splits)

lemma createProperty_invalid:
  assumes "\<not> isValid (validatePropertyInput (sanitizeInput input))"
  shows "createProperty svc input w =
           (Inl (Error (''Validation failed: ''
              @ join '', '' (errors (validatePropertyInput (sanitizeInput input))))), w)"
  using assms by (simp add: createProperty_def Let_def)

lemma createProperty_DbCreate:
  assumes "DbCreate d \<in> set (calls_since w (snd (createProperty svc input w)))"
  shows "isValid (validatePropertyInput (sanitizeInput input))
         \<and> (\<exists>wd loc.
              snd (weatherService svc (trim_or_empty (city input))
                     (upper_trim_or_empty (state input)) (trim_or_empty (zipCode input))) = Inr wd
              \<and> location wd = Some loc
              \<and> \<not> isNaN (parseFloat (lat loc)) \<and> \<not> isNaN (parseFloat (lon loc))
              \<and> d_lat d = parseFloat (lat loc) \<and> d_long d = parseFloat (lon loc)
              \<and> d_weatherData d = wd)"
proof (cases "isValid (validatePropertyInput (sanitizeInput input))")
  case True
  with assms have "DbCreate d
      \<in> set (calls_since w (snd (createProperty_try svc (sanitizeInput input) w)))"
    by (simp add: createProperty_valid)
  from createProperty_try_DbCreate [OF this] True show ?thesis
    by (simp add: sanitized_fields)
next
  case False
  with assms show ?thesis
    by (simp add: createProperty_invalid calls_since_def)
qed

lemma live_lookup:
  assumes "key \<noteq> ''demo_key''" and "key \<noteq> ''mock''"
    and "location wd \<noteq> None" and "current wd \<noteq> None"
  shows "snd (weatherService (service_with key wd) c st z) = Inr wd"
  using assms
  by (simp add: service_with_def mem_service_def getCurrentWeather_def
      new_WeatherstackService_def fixed_runtime_def ok_response_def check_response_def Let_def)

lemma weather_at_sections:
  "location (weather_at la lo) = Some (phoenix_location\<lparr>lat := la, lon := lo\<rparr>)"
  "current (weather_at la lo) = Some phoenix_current"
  "location phoenix_weather = Some phoenix_location"
  "current phoenix_weather = Some phoenix_current"
  by (simp_all add: weather_at_def phoenix_weather_def)

lemma phoenix_input_valid: "isValid (validatePropertyInput (sanitizeInput phoenix_input))"
  by code_simp

lemma phoenix_input_args:
  "trim_or_empty (city phoenix_input) = ''Phoenix''"
  "trim_or_empty (street phoenix_input) = ''123 Main St''"
  "upper_trim_or_empty (state phoenix_input) = ''AZ''"
  "trim_or_empty (zipCode phoenix_input) = ''85001''"
  by code_simp+

lemma round_double_not_NaN: "round_double v \<noteq> NaN"
  by (simp add: round_double_def)

lemma double_bound_large: "(1000 :: rat) \<le> 2 ^ 1024 - 2 ^ 970"
proof -
  define B :: rat where "B = 2 ^ 970"
  have B: "1 \<le> B"
    unfolding B_def by (rule one_le_power) simp
  have "(2 :: rat) ^ 1024 = 2 ^ (970 + 54)"
    by simp
  also have "\<dots> = B * 2 ^ 54"
    unfolding B_def by (rule power_add)
  finally have "(2 :: rat) ^ 1024 - 2 ^ 970 = B * (2 ^ 54 - 1)"
    by (simp add: B_def algebra_simps)
  moreover have "1 * (1000 :: rat) \<le> B * (2 ^ 54 - 1)"
    using B by (intro mult_mono) simp_all
  ultimately show ?thesis
    by simp
qed

lemma round_double_small: "\<bar>v\<bar> < 1000 \<Longrightarrow> round_double v = Fin v"
  using double_bound_large by (simp add: round_double_def abs_less_iff)

lemma parseFloat_examples:
  "parseFloat ''invalid'' = NaN"
  "parseFloat ''Infinity'' = PosInf"
  "parseFloat ''33.448'' = Fin (4181 / 125)"
  "parseFloat ''-112.074'' = Fin (- (56037 / 500))"
  by (simp_all add: parseFloat_def Let_def trimStart_def isWhiteSpace_def isDigit_def
      digits_val_def digit_val_def exponent_part_def round_double_small)

lemma createProperty_mem:
  assumes "isValid (validatePropertyInput (sanitizeInput input))"
    and "snd (ws (trim_or_empty (city input)) (upper_trim_or_empty (state input))
           (trim_or_empty (zipCode input))) = Inr wd"
    and "location wd = Some loc"
    and "\<not> isNaN (parseFloat (lat loc))" and "\<not> isNaN (parseFloat (lon loc))"
  shows "map_sum id p_lat (fst (createProperty (mem_service ws) input w)) = Inr (parseFloat (lat loc))"
    and "map p_lat (table (db (snd (createProperty (mem_service ws) input w))))
           = map p_lat (table (db w)) @ [parseFloat (lat loc)]"
  using assms
  by (simp_all add: createProperty_valid createProperty_try_def Let_def sanitized_fields
      mem_service_def mem_prisma_def mem_create_def)

text \<open>
  C1, as amended. The check on the coordinates is \<open>isNaN\<close>, not finiteness. For every
  create invocation in which validation succeeds and the weather lookup returns a
  snapshot with a location: if either coordinate string parses to \<open>NaN\<close>, the operation
  fails with the wrapped coordinate error, the database is unchanged and the storage
  create is not invoked; the storage create is invoked only with coordinates that are
  not \<open>NaN\<close>; and when neither is \<open>NaN\<close> it is invoked, with the parsed coordinates.
\<close>

theorem createProperty_coordinate_check:
  assumes "isValid (validatePropertyInput (sanitizeInput input))"
    and "snd (weatherService svc (trim_or_empty (city input))
           (upper_trim_or_empty (state input)) (trim_or_empty (zipCode input))) = Inr wd"
    and "location wd = Some loc"
  shows "(isNaN (parseFloat (lat loc)) \<or> isNaN (parseFloat (lon loc)) \<longrightarrow>
            fst (createProperty svc input w) =
              Inl (Error ''Failed to create property: Invalid coordinates received from weather service'')
            \<and> db (snd (createProperty svc input w)) = db w
            \<and> (\<forall>d. DbCreate d \<notin> set (calls_since w (snd (createProperty svc input w)))))
         \<and> (\<forall>d. DbCreate d \<in> set (calls_since w (snd (createProperty svc input w))) \<longrightarrow>
              \<not> isNaN (d_lat d) \<and> \<not> isNaN (d_long d))
         \<and> (\<not> isNaN (parseFloat (lat loc)) \<and> \<not> isNaN (parseFloat (lon loc)) \<longrightarrow>
              (\<exists>d. last (calls (snd (createProperty svc input w))) = DbCreate d
                 \<and> d_lat d = parseFloat (lat loc) \<and> d_long d = parseFloat (lon loc)))"
proof -
  let ?s = "sanitizeInput input"
  have looked: "snd (weatherService svc (str_of (city ?s)) (str_of (state ?s))
                  (str_of (zipCode ?s))) = Inr wd"
    using assms(2) by (simp add: sanitized_fields)
  have nan: "fst (createProperty svc input w) =
               Inl (Error ''Failed to create property: Invalid coordinates received from weather service'')
             \<and> db (snd (createProperty svc input w)) = db w
             \<and> (\<forall>d. DbCreate d \<notin> set (calls_since w (snd (createProperty svc input w))))"
    if "isNaN (parseFloat (lat loc)) \<or> isNaN (parseFloat (lon loc))"
    using createProperty_try_nan [OF looked assms(3) that, of w] assms(1)
    by (auto simp: createProperty_valid wrap_thrown_def invalid_coordinates_def calls_since_def)
  have only: "\<not> isNaN (d_lat d) \<and> \<not> isNaN (d_long d)"
    if "DbCreate d \<in> set (calls_since w (snd (createProperty svc input w)))" for d
    using createProperty_DbCreate [OF that] by auto
  have created: "\<exists>d. last (calls (snd (createProperty svc input w))) = DbCreate d
                   \<and> d_lat d = parseFloat (lat loc) \<and> d_long d = parseFloat (lon loc)"
    if "\<not> isNaN (parseFloat (lat loc))" and "\<not> isNaN (parseFloat (lon loc))"
    using createProperty_try_create [OF looked assms(3) that, of w] assms(1)
    by (simp add: createProperty_valid)
  from nan only created show ?thesis
    by blast
qed

theorem createProperty_coordinate_check_witness:
  "isValid (validatePropertyInput (sanitizeInput phoenix_input))
   \<and> snd (weatherService (service_with ''live'' (weather_at ''invalid'' ''-112.074''))
          ''Phoenix'' ''AZ'' ''85001'') = Inr (weather_at ''invalid'' ''-112.074'')
   \<and> isNaN (parseFloat ''invalid'')
   \<and> fst (createProperty (service_with ''live'' (weather_at ''invalid'' ''-112.074''))
          phoenix_input start) =
       Inl (Error ''Failed to create property: Invalid coordinates received from weather service'')
   \<and> db (snd (createProperty (service_with ''live'' (weather_at ''invalid'' ''-112.074''))
          phoenix_input start)) = db start"
proof -
  let ?svc = "service_with ''live'' (weather_at ''invalid'' ''-112.074'')"
  let ?loc = "phoenix_location\<lparr>lat := ''invalid'', lon := ''-112.074''\<rparr>"
  have looked: "snd (weatherService ?svc (trim_or_empty (city phoenix_input))
                  (upper_trim_or_empty (state phoenix_input))
                  (trim_or_empty (zipCode phoenix_input)))
                  = Inr (weather_at ''invalid'' ''-112.074'')"
    by (rule live_lookup) (simp_all add: weather_at_sections)
  have nan: "isNaN (parseFloat (lat ?loc)) \<or> isNaN (parseFloat (lon ?loc))"
    by (simp add: parseFloat_examples isNaN_def)
  from createProperty_coordinate_check
    [OF phoenix_input_valid looked weather_at_sections(1), of start] nan
  have "fst (createProperty ?svc phoenix_input start) =
          Inl (Error ''Failed to create property: Invalid coordinates received from weather service'')
        \<and> db (snd (createProperty ?svc phoenix_input start)) = db start"
    by blast
  with looked phoenix_input_valid show ?thesis
    by (simp add: phoenix_input_args parseFloat_examples isNaN_def)
qed

text \<open>
  The claim as stated fails: a latitude string \<open>Infinity\<close> does not parse to a finite
  number, yet the storage create is invoked with the infinite latitude, the operation
  succeeds, and on the reference storage a record with that latitude is stored.
\<close>

theorem createProperty_infinite_coordinate:
  "isValid (validatePropertyInput (sanitizeInput phoenix_input))
   \<and> snd (weatherService (service_with ''live'' (weather_at ''Infinity'' ''-112.074''))
          ''Phoenix'' ''AZ'' ''85001'') = Inr (weather_at ''Infinity'' ''-112.074'')
   \<and> \<not> isFinite (parseFloat ''Infinity'')
   \<and> map p_lat (table (db (snd (createProperty
          (service_with ''live'' (weather_at ''Infinity'' ''-112.074'')) phoenix_input start))))
       = [PosInf]
   \<and> map_sum id p_lat (fst (createProperty
          (service_with ''live'' (weather_at ''Infinity'' ''-112.074'')) phoenix_input start))
       = Inr PosInf
   \<and> DbCreate \<lparr>d_city = ''Phoenix'', d_street = ''123 Main St'', d_state = ''AZ'',
         d_zipCode = ''85001'', d_lat = PosInf, d_long = parseFloat ''-112.074'',
         d_weatherData = weather_at ''Infinity'' ''-112.074''\<rparr>
       \<in> set (calls (snd (createProperty
          (service_with ''live'' (weather_at ''Infinity'' ''-112.074'')) phoenix_input start)))"
proof -
  let ?wd = "weather_at ''Infinity'' ''-112.074''"
  let ?ws = "getCurrentWeather (new_WeatherstackService ''live'') (fixed_runtime (ok_response ?wd))"
  let ?loc = "phoenix_location\<lparr>lat := ''Infinity'', lon := ''-112.074''\<rparr>"
  have svc: "service_with ''live'' ?wd = mem_service ?ws"
    by (simp add: service_with_def)
  have looked: "snd (weatherService (service_with ''live'' ?wd) c st z) = Inr ?wd" for c st z
    by (rule live_lookup) (simp_all add: weather_at_sections)
  then have looked': "snd (?ws (trim_or_empty (city phoenix_input))
      (upper_trim_or_empty (state phoenix_input)) (trim_or_empty (zipCode phoenix_input))) = Inr ?wd"
    by (simp add: service_with_def mem_service_def)
  have ok: "\<not> isNaN (parseFloat (lat ?loc))" "\<not> isNaN (parseFloat (lon ?loc))"
    by (simp_all add: parseFloat_examples isNaN_def)
  from createProperty_mem [where ws = ?ws and input = phoenix_input and w = start and wd = ?wd
      and loc = ?loc, OF phoenix_input_valid looked' weather_at_sections(1) ok]
  have "map_sum id p_lat (fst (createProperty (service_with ''live'' ?wd) phoenix_input start))
          = Inr PosInf"
    and "map p_lat (table (db (snd (createProperty (service_with ''live'' ?wd) phoenix_input start))))
          = [PosInf]"
    by (simp_all add: svc parseFloat_examples start_def empty_db_def)
  note stored = this
  let ?s = "sanitizeInput phoenix_input"
  have "calls (snd (createProperty (service_with ''live'' ?wd) phoenix_input start)) =
          calls start
          @ WeatherLookup (str_of (city ?s)) (str_of (state ?s)) (str_of (zipCode ?s))
          # map HttpGet (fst (weatherService (service_with ''live'' ?wd) (str_of (city ?s))
              (str_of (state ?s)) (str_of (zipCode ?s))))
          @ [DbCreate \<lparr>d_city = str_of (city ?s), d_street = str_of (street ?s),
                d_state = str_of (state ?s), d_zipCode = str_of (zipCode ?s),
                d_lat = parseFloat (lat ?loc), d_long = parseFloat (lon ?loc),
                d_weatherData = ?wd\<rparr>]"
    using createProperty_try_create [OF looked weather_at_sections(1) ok, of ?s start]
    by (simp add: createProperty_valid [OF phoenix_input_valid])
  then have "DbCreate \<lparr>d_city = ''Phoenix'', d_street = ''123 Main St'', d_state = ''AZ'',
         d_zipCode = ''85001'', d_lat = PosInf, d_long = parseFloat ''-112.074'',
         d_weatherData = ?wd\<rparr>
       \<in> set (calls (snd (createProperty (service_with ''live'' ?wd) phoenix_input start)))"
    by (simp add: sanitized_fields phoenix_input_args parseFloat_examples(2))
  with stored looked phoenix_input_valid show ?thesis
    by (simp add: parseFloat_examples(2) isFinite_def)
qed

text \<open>
  C2. A submission that fails validation after sanitization aborts with the single
  combined message and leaves the world as it was: the adapter is not invoked, and no
  network or storage call is made. The storage create is invoked only after validation
  succeeded, the weather lookup returned a snapshot, and neither parsed coordinate of
  its location is \<open>NaN\<close>.
\<close>

theorem createProperty_sequencing:
  "(\<not> isValid (validatePropertyInput (sanitizeInput input)) \<longrightarrow>
      createProperty svc input w =
        (Inl (Error (''Validation failed: ''
           @ join '', '' (errors (validatePropertyInput (sanitizeInput input))))), w)
      \<and> calls_since w (snd (createProperty svc input w)) = [])
   \<and> (\<forall>d. DbCreate d \<in> set (calls_since w (snd (createProperty svc input w))) \<longrightarrow>
        isValid (validatePropertyInput (sanitizeInput input))
        \<and> (\<exists>wd loc.
             snd (weatherService svc (trim_or_empty (city input))
                    (upper_trim_or_empty (state input)) (trim_or_empty (zipCode input))) = Inr wd
             \<and> location wd = Some loc
             \<and> \<not> isNaN (parseFloat (lat loc)) \<and> \<not> isNaN (parseFloat (lon loc))
             \<and> d_weatherData d = wd))"
proof -
  have "calls_since w (snd (createProperty svc input w)) = []"
    if "\<not> isValid (validatePropertyInput (sanitizeInput input))"
    using that by (simp add: createProperty_invalid calls_since_def)
  moreover have "isValid (validatePropertyInput (sanitizeInput input))
        \<and> (\<exists>wd loc.
             snd (weatherService svc (trim_or_empty (city input))
                    (upper_trim_or_empty (state input)) (trim_or_empty (zipCode input))) = Inr wd
             \<and> location wd = Some loc
             \<and> \<not> isNaN (parseFloat (lat loc)) \<and> \<not> isNaN (parseFloat (lon loc))
             \<and> d_weatherData d = wd)"
    if "DbCreate d \<in> set (calls_since w (snd (createProperty svc input w)))" for d
    using createProperty_DbCreate [OF that] by blast
  ultimately show ?thesis
    using createProperty_invalid [of input svc w] by blast
qed

theorem createProperty_sequencing_witness:
  "\<not> isValid (validatePropertyInput (sanitizeInput (phoenix_input\<lparr>city := Some ''  ''\<rparr>)))
   \<and> createProperty (service_with ''live'' phoenix_weather)
        (phoenix_input\<lparr>city := Some ''  ''\<rparr>) start
       = (Inl (Error ''Validation failed: City is required''), start)
   \<and> DbCreate \<lparr>d_city = ''Phoenix'', d_street = ''123 Main St'', d_state = ''AZ'',
         d_zipCode = ''85001'', d_lat = parseFloat ''33.448'', d_long = parseFloat ''-112.074'',
         d_weatherData = phoenix_weather\<rparr>
       \<in> set (calls_since start
           (snd (createProperty (service_with ''live'' phoenix_weather) phoenix_input start)))
   \<and> isValid (validatePropertyInput (sanitizeInput phoenix_input))
   \<and> (\<exists>wd loc.
        snd (weatherService (service_with ''live'' phoenix_weather) ''Phoenix'' ''AZ'' ''85001'')
          = Inr wd
        \<and> location wd = Some loc
        \<and> \<not> isNaN (parseFloat (lat loc)) \<and> \<not> isNaN (parseFloat (lon loc))
        \<and> phoenix_weather = wd)"
proof -
  let ?svc = "service_with ''live'' phoenix_weather"
  let ?bad = "phoenix_input\<lparr>city := Some ''  ''\<rparr>"
  let ?s = "sanitizeInput phoenix_input"
  let ?d = "\<lparr>d_city = ''Phoenix'', d_street = ''123 Main St'', d_state = ''AZ'',
         d_zipCode = ''85001'', d_lat = parseFloat ''33.448'', d_long = parseFloat ''-112.074'',
         d_weatherData = phoenix_weather\<rparr>"
  have invalid: "\<not> isValid (validatePropertyInput (sanitizeInput ?bad))"
    by code_simp
  have msg: "''Validation failed: '' @ join '', '' (errors (validatePropertyInput (sanitizeInput ?bad)))
               = ''Validation failed: City is required''"
    by code_simp
  have looked: "snd (weatherService ?svc c st z) = Inr phoenix_weather" for c st z
    by (rule live_lookup) (simp_all add: weather_at_sections)
  have loc: "lat phoenix_location = ''33.448''" "lon phoenix_location = ''-112.074''"
    by (simp_all add: phoenix_location_def)
  have ok: "\<not> isNaN (parseFloat (lat phoenix_location))"
    "\<not> isNaN (parseFloat (lon phoenix_location))"
    by (simp_all add: loc parseFloat_examples isNaN_def)
  have "calls (snd (createProperty ?svc phoenix_input start)) =
          calls start
          @ WeatherLookup (str_of (city ?s)) (str_of (state ?s)) (str_of (zipCode ?s))
          # map HttpGet (fst (weatherService ?svc (str_of (city ?s)) (str_of (state ?s))
              (str_of (zipCode ?s))))
          @ [DbCreate \<lparr>d_city = str_of (city ?s), d_street = str_of (street ?s),
                d_state = str_of (state ?s), d_zipCode = str_of (zipCode ?s),
                d_lat = parseFloat (lat phoenix_location),
                d_long = parseFloat (lon phoenix_location),
                d_weatherData = phoenix_weather\<rparr>]"
    using createProperty_try_create [OF looked weather_at_sections(3) ok, of ?s start]
    by (simp add: createProperty_valid [OF phoenix_input_valid])
  then have created: "DbCreate ?d
      \<in> set (calls_since start (snd (createProperty ?svc phoenix_input start)))"
    by (simp add: calls_since_def sanitized_fields phoenix_input_args loc)
  from createProperty_sequencing [of ?bad ?svc start] invalid msg
  have first: "createProperty ?svc ?bad start
                 = (Inl (Error ''Validation failed: City is required''), start)"
    by simp
  from createProperty_sequencing [of phoenix_input ?svc start] created
  have "isValid (validatePropertyInput (sanitizeInput phoenix_input))
        \<and> (\<exists>wd loc.
             snd (weatherService ?svc (trim_or_empty (city phoenix_input))
                    (upper_trim_or_empty (state phoenix_input))
                    (trim_or_empty (zipCode phoenix_input))) = Inr wd
             \<and> location wd = Some loc
             \<and> \<not> isNaN (parseFloat (lat loc)) \<and> \<not> isNaN (parseFloat (lon loc))
             \<and> d_weatherData ?d = wd)"
    by blast
  with invalid first created show ?thesis
    by (simp add: phoenix_input_args)
qed

section \<open>The state rule\<close>

lemma state_error_iff:
  "(state_required \<in> set (errors (validatePropertyInput x)))
     = falsy_or (state x) (\<lambda>s. \<not> List.member US_STATES s)"
  by (simp add: validatePropertyInput_def Let_def push_if_def state_required_def
      city_required_def street_required_def zip_required_def)

text \<open>
  C4, as amended. The validator compares the state with the table exactly, letter case
  included: it reports no state error exactly when the state is present, not empty and
  an entry of the table as written. The rule is case-insensitive only through the
  normalization that the workflow applies first: the sanitized submission has no state
  error exactly when the state, upper-cased and trimmed, is an entry of the table.
\<close>

theorem state_rule_after_normalization:
  "(state_required \<notin> set (errors (validatePropertyInput x)))
     = (\<exists>s. state x = Some s \<and> s \<noteq> [] \<and> List.member US_STATES s)
   \<and> (state_required \<notin> set (errors (validatePropertyInput (sanitizeInput x))))
     = (\<exists>s. state x = Some s \<and> trim (toUpperCase s) \<noteq> []
          \<and> List.member US_STATES (trim (toUpperCase s)))"
proof -
  have "(state_required \<notin> set (errors (validatePropertyInput y)))
          = (\<exists>s. state y = Some s \<and> s \<noteq> [] \<and> List.member US_STATES s)" for y
    by (cases "state y") (simp_all add: state_error_iff falsy_or_def)
  note exact = this
  have "(\<exists>s. state (sanitizeInput x) = Some s \<and> s \<noteq> [] \<and> List.member US_STATES s)
          = (\<exists>s. state x = Some s \<and> trim (toUpperCase s) \<noteq> []
               \<and> List.member US_STATES (trim (toUpperCase s)))"
    by (cases "state x") (auto simp: sanitizeInput_def upper_trim_or_empty_def)
  with exact [of x] exact [of "sanitizeInput x"] show ?thesis
    by simp
qed

text \<open>
  The claim as stated fails: \<open>az\<close> is a valid abbreviation in lower case, and the
  validator reports a state error for it.
\<close>

theorem lowercase_state_rejected:
  "List.member US_STATES (toUpperCase ''az'')
   \<and> state_required \<in> set (errors (validatePropertyInput
        \<lparr>city = Some ''Phoenix'', street = Some ''123 Main St'', state = Some ''az'',
         zipCode = Some ''85001''\<rparr>))"
  by code_simp

section \<open>The mode of the weather adapter\<close>

text \<open>
  C3, as amended. The two sentinel credentials are \<open>demo_key\<close> and \<open>mock\<close>. With either,
  \<open>getCurrentWeather\<close> makes no network request and returns the snapshot of the synthetic
  generator, whose location carries the given city and state. With any other
  credential it makes exactly one request, to the configured endpoint with the
  credential, the composed query, metric units and a 15 second timeout, and its outcome
  is decided by the answer.
\<close>

theorem getCurrentWeather_mode:
  "(apiKey svc = ''demo_key'' \<or> apiKey svc = ''mock'' \<longrightarrow>
      getCurrentWeather svc rt c st z = ([], Inr (getMockWeatherData rt c st z))
      \<and> map_option name (location (getMockWeatherData rt c st z)) = Some c
      \<and> map_option region (location (getMockWeatherData rt c st z)) = Some st)
   \<and> (apiKey svc \<noteq> ''demo_key'' \<and> apiKey svc \<noteq> ''mock'' \<longrightarrow>
        fst (getCurrentWeather svc rt c st z) =
          [\<lparr>url = baseUrl svc, access_key = apiKey svc, query = c @ '', '' @ st @ '' '' @ z,
            units = ''m'', timeout = 15000\<rparr>]
        \<and> snd (getCurrentWeather svc rt c st z) =
            (case axios_get rt
                    \<lparr>url = baseUrl svc, access_key = apiKey svc,
                     query = c @ '', '' @ st @ '' '' @ z, units = ''m'', timeout = 15000\<rparr> of
               Resolved d \<Rightarrow> check_response (c @ '', '' @ st @ '' '' @ z) d
             | RejectedAxios e \<Rightarrow> Inl (Error (axios_error_message e))
             | Rejected t \<Rightarrow> Inl t))"
  by (simp add: getCurrentWeather_def getMockWeatherData_def Let_def live_request_def
      make_query_def split: axios_result.splits)

theorem getCurrentWeather_mode_witness:
  "apiKey (new_WeatherstackService ''mock'') = ''mock''
   \<and> getCurrentWeather (new_WeatherstackService ''mock'')
        (fixed_runtime (ok_response phoenix_weather)) ''Phoenix'' ''AZ'' ''85001''
       = ([], Inr (getMockWeatherData (fixed_runtime (ok_response phoenix_weather))
                ''Phoenix'' ''AZ'' ''85001''))
   \<and> map_option name (location (getMockWeatherData (fixed_runtime (ok_response phoenix_weather))
        ''Phoenix'' ''AZ'' ''85001'')) = Some ''Phoenix''
   \<and> map_option region (location (getMockWeatherData (fixed_runtime (ok_response phoenix_weather))
        ''Phoenix'' ''AZ'' ''85001'')) = Some ''AZ''
   \<and> apiKey (new_WeatherstackService ''test-api-key'') \<noteq> ''demo_key''
   \<and> apiKey (new_WeatherstackService ''test-api-key'') \<noteq> ''mock''
   \<and> fst (getCurrentWeather (new_WeatherstackService ''test-api-key'')
        (fixed_runtime (ok_response phoenix_weather)) ''Phoenix'' ''AZ'' ''85001'')
       = [\<lparr>url = ''https://api.weatherstack.com/current'', access_key = ''test-api-key'',
           query = ''Phoenix, AZ 85001'', units = ''m'', timeout = 15000\<rparr>]"
proof -
  let ?rt = "fixed_runtime (ok_response phoenix_weather)"
  have mock: "apiKey (new_WeatherstackService ''mock'') = ''mock''"
    by (simp add: new_WeatherstackService_def)
  have live: "apiKey (new_WeatherstackService ''test-api-key'') \<noteq> ''demo_key''"
    "apiKey (new_WeatherstackService ''test-api-key'') \<noteq> ''mock''"
    by (simp_all add: new_WeatherstackService_def)
  from getCurrentWeather_mode [of "new_WeatherstackService ''mock''" ?rt
      "''Phoenix''" "''AZ''" "''85001''"] mock
  have first: "getCurrentWeather (new_WeatherstackService ''mock'') ?rt ''Phoenix'' ''AZ'' ''85001''
          = ([], Inr (getMockWeatherData ?rt ''Phoenix'' ''AZ'' ''85001''))
        \<and> map_option name (location (getMockWeatherData ?rt ''Phoenix'' ''AZ'' ''85001''))
          = Some ''Phoenix''
        \<and> map_option region (location (getMockWeatherData ?rt ''Phoenix'' ''AZ'' ''85001''))
          = Some ''AZ''"
    by blast
  from getCurrentWeather_mode [of "new_WeatherstackService ''test-api-key''" ?rt
      "''Phoenix''" "''AZ''" "''85001''"] live
  have "fst (getCurrentWeather (new_WeatherstackService ''test-api-key'') ?rt
          ''Phoenix'' ''AZ'' ''85001'')
        = [\<lparr>url = baseUrl (new_WeatherstackService ''test-api-key''),
            access_key = apiKey (new_WeatherstackService ''test-api-key''),
            query = ''Phoenix'' @ '', '' @ ''AZ'' @ '' '' @ ''85001'',
            units = ''m'', timeout = 15000\<rparr>]"
    by blast
  then have second: "fst (getCurrentWeather (new_WeatherstackService ''test-api-key'') ?rt
          ''Phoenix'' ''AZ'' ''85001'')
        = [\<lparr>url = ''https://api.weatherstack.com/current'', access_key = ''test-api-key'',
           query = ''Phoenix, AZ 85001'', units = ''m'', timeout = 15000\<rparr>]"
    by (simp add: new_WeatherstackService_def)
  from mock live first second show ?thesis
    by blast
qed

text \<open>
  The claim as stated fails in both directions: with the credential \<open>demo\<close> a network
  request is made, and with the credential \<open>demo_key\<close>, which is neither \<open>demo\<close> nor
  \<open>mock\<close>, none is made and the synthetic snapshot is returned.
\<close>

theorem demo_credential_is_live:
  "fst (getCurrentWeather (new_WeatherstackService ''demo'')
      (fixed_runtime (ok_response phoenix_weather)) ''Phoenix'' ''AZ'' ''85001'')
     = [\<lparr>url = ''https://api.weatherstack.com/current'', access_key = ''demo'',
         query = ''Phoenix, AZ 85001'', units = ''m'', timeout = 15000\<rparr>]
   \<and> snd (getCurrentWeather (new_WeatherstackService ''demo'')
      (fixed_runtime (ok_response phoenix_weather)) ''Phoenix'' ''AZ'' ''85001'')
     = Inr phoenix_weather
   \<and> ''demo_key'' \<noteq> ''demo'' \<and> ''demo_key'' \<noteq> ''mock''
   \<and> getCurrentWeather (new_WeatherstackService ''demo_key'')
      (fixed_runtime (ok_response phoenix_weather)) ''Phoenix'' ''AZ'' ''85001''
     = ([], Inr (getMockWeatherData (fixed_runtime (ok_response phoenix_weather))
              ''Phoenix'' ''AZ'' ''85001''))"
  by (simp add: getCurrentWeather_def new_WeatherstackService_def fixed_runtime_def
      ok_response_def check_response_def live_request_def make_query_def Let_def
      weather_at_sections)

section \<open>The query service\<close>

text \<open>
  C10. In the list and in the count, a city, state or zip code filter given as the
  empty string is the same as no filter: the call has the same result, makes the same
  storage call and leaves the same state as the call without that filter.
\<close>

theorem empty_filter_is_no_filter:
  "getProperties svc (f\<lparr>f_city := Some []\<rparr>) w = getProperties svc (f\<lparr>f_city := None\<rparr>) w
   \<and> getProperties svc (f\<lparr>f_state := Some []\<rparr>) w = getProperties svc (f\<lparr>f_state := None\<rparr>) w
   \<and> getProperties svc (f\<lparr>f_zipCode := Some []\<rparr>) w
       = getProperties svc (f\<lparr>f_zipCode := None\<rparr>) w
   \<and> getPropertiesCount svc (f\<lparr>f_city := Some []\<rparr>) w
       = getPropertiesCount svc (f\<lparr>f_city := None\<rparr>) w
   \<and> getPropertiesCount svc (f\<lparr>f_state := Some []\<rparr>) w
       = getPropertiesCount svc (f\<lparr>f_state := None\<rparr>) w
   \<and> getPropertiesCount svc (f\<lparr>f_zipCode := Some []\<rparr>) w
       = getPropertiesCount svc (f\<lparr>f_zipCode := None\<rparr>) w"
  by (simp add: getProperties_def getPropertiesCount_def findMany_args_def build_where_def
      truthy_def)

section \<open>Deleting a record\<close>

lemma trimStart_Nil_iff: "trimStart s = [] \<longleftrightarrow> list_all isWhiteSpace s"
  by (simp add: trimStart_def list_all_iff)

lemma trim_Nil_iff: "trim s = [] \<longleftrightarrow> list_all isWhiteSpace s"
proof
  assume "trim s = []"
  then have "trimStart (rev (trimStart s)) = []"
    by (simp add: trim_def)
  then have all: "list_all isWhiteSpace (trimStart s)"
    by (simp add: trimStart_Nil_iff list_all_iff)
  have "trimStart s = []"
  proof (rule ccontr)
    assume ne: "trimStart s \<noteq> []"
    have "trimStart (trimStart s) = trimStart s"
      by (rule trimStart_idem)
    with ne have "\<not> isWhiteSpace (hd (trimStart s))"
      by (simp add: trimStart_fixed)
    moreover from ne all have "isWhiteSpace (hd (trimStart s))"
      by (cases "trimStart s") simp_all
    ultimately show False
      by simp
  qed
  then show "list_all isWhiteSpace s"
    by (simp add: trimStart_Nil_iff)
next
  assume "list_all isWhiteSpace s"
  then have "trimStart s = []"
    by (simp add: trimStart_Nil_iff)
  then show "trim s = []"
    by (simp add: trim_def trimStart_def [of "[]"])
qed

lemma id_missing_iff: "id_missing i \<longleftrightarrow> list_all isWhiteSpace i"
  by (auto simp: id_missing_def trim_Nil_iff)

lemma deleteProperty_absent:
  assumes "\<not> id_missing i"
    and "fst (property_findUnique (prisma svc) (trim i) (db w)) = Inr None"
  shows "fst (deleteProperty svc i w) = Inl (Error ''Property not found'')"
    and "calls_since w (snd (deleteProperty svc i w)) = [DbFindUnique (trim i)]"
  using assms
  by (simp_all add: deleteProperty_def Let_def delete_catch_def not_found_def calls_since_def)

lemma deleteProperty_true:
  assumes "fst (deleteProperty svc i w) = Inr True"
  shows "\<not> id_missing i"
    and "\<exists>p. fst (property_findUnique (prisma svc) (trim i) (db w)) = Inr (Some p)"
    and "\<exists>p. fst (property_delete (prisma svc) (trim i)
                (snd (property_findUnique (prisma svc) (trim i) (db w)))) = Inr p"
    and "calls_since w (snd (deleteProperty svc i w)) = [DbFindUnique (trim i), DbDelete (trim i)]"
  using assms
  by (auto simp: deleteProperty_def Let_def calls_since_def
      split: if_splits sum.splits option.splits)

lemma deleteProperty_never_false: "fst (deleteProperty svc i w) \<noteq> Inr False"
  by (auto simp: deleteProperty_def Let_def split: if_splits sum.splits option.splits)

text \<open>
  C6. On an identifier that is empty or all white space, \<open>deleteProperty\<close> fails with the
  required-identifier error and leaves the world as it was: no storage call is made. On
  any other identifier for which the lookup finds no record, it fails with exactly the
  error \<open>Property not found\<close>, not a wrapped storage error, after the lookup alone. It never
  returns false, and it returns true only after the lookup found a record and the
  storage delete of the trimmed identifier succeeded.
\<close>

theorem deleteProperty_outcomes:
  "(list_all isWhiteSpace i \<longrightarrow>
      deleteProperty svc i w = (Inl (Error ''Property ID is required''), w))
   \<and> (\<not> list_all isWhiteSpace i
        \<and> fst (property_findUnique (prisma svc) (trim i) (db w)) = Inr None \<longrightarrow>
        fst (deleteProperty svc i w) = Inl (Error ''Property not found'')
        \<and> calls_since w (snd (deleteProperty svc i w)) = [DbFindUnique (trim i)])
   \<and> fst (deleteProperty svc i w) \<noteq> Inr False
   \<and> (fst (deleteProperty svc i w) = Inr True \<longrightarrow>
        \<not> list_all isWhiteSpace i
        \<and> (\<exists>p. fst (property_findUnique (prisma svc) (trim i) (db w)) = Inr (Some p))
        \<and> (\<exists>p. fst (property_delete (prisma svc) (trim i)
                  (snd (property_findUnique (prisma svc) (trim i) (db w)))) = Inr p)
        \<and> calls_since w (snd (deleteProperty svc i w))
            = [DbFindUnique (trim i), DbDelete (trim i)])"
proof -
  have "deleteProperty svc i w = (Inl (Error ''Property ID is required''), w)"
    if "list_all isWhiteSpace i"
    using that by (simp add: deleteProperty_def id_missing_iff)
  moreover note deleteProperty_absent [of i svc w] deleteProperty_true [of svc i w]
    deleteProperty_never_false [of svc i w]
  ultimately show ?thesis
    unfolding id_missing_iff by blast
qed

lemma two_rows: "db_of_size 2 = \<lparr>table = [row 0, row (Suc 0)], next_id = 2, clock = 2\<rparr>"
  by (simp add: db_of_size_def upt_rec)

lemma row_ids: "prop_id (row 0) = ''prop_0''" "prop_id (row (Suc 0)) = ''prop_1''"
  by code_simp+

lemma trim_examples:
  "trim '' prop_1 '' = ''prop_1''" "trim ''prop_7'' = ''prop_7''"
  "list_all isWhiteSpace ''   ''" "\<not> list_all isWhiteSpace '' prop_1 ''"
  "\<not> list_all isWhiteSpace ''prop_7''"
  by (simp_all add: trim_def trimStart_def isWhiteSpace_def)

theorem deleteProperty_outcomes_witness:
  "list_all isWhiteSpace ''   ''
   \<and> deleteProperty (service_with ''mock'' phoenix_weather) ''   '' \<lparr>db = db_of_size 2, calls = []\<rparr>
       = (Inl (Error ''Property ID is required''), \<lparr>db = db_of_size 2, calls = []\<rparr>)
   \<and> \<not> list_all isWhiteSpace ''prop_7''
   \<and> fst (property_findUnique (prisma (service_with ''mock'' phoenix_weather)) (trim ''prop_7'') (db_of_size 2))
       = Inr None
   \<and> fst (deleteProperty (service_with ''mock'' phoenix_weather) ''prop_7'' \<lparr>db = db_of_size 2, calls = []\<rparr>)
       = Inl (Error ''Property not found'')
   \<and> fst (deleteProperty (service_with ''mock'' phoenix_weather) '' prop_1 '' \<lparr>db = db_of_size 2, calls = []\<rparr>)
       = Inr True
   \<and> calls_since \<lparr>db = db_of_size 2, calls = []\<rparr>
        (snd (deleteProperty (service_with ''mock'' phoenix_weather) '' prop_1 '' \<lparr>db = db_of_size 2, calls = []\<rparr>))
       = [DbFindUnique ''prop_1'', DbDelete ''prop_1'']"
proof -
  let ?w = "\<lparr>db = db_of_size 2, calls = []\<rparr>"
  have absent: "fst (property_findUnique (prisma (service_with ''mock'' phoenix_weather)) (trim ''prop_7'') (db ?w))
                  = Inr None"
    by (simp add: service_with_def mem_service_def mem_prisma_def mem_findUnique_def two_rows row_ids
        trim_examples)
  have present: "\<not> id_missing '' prop_1 ''"
    unfolding id_missing_iff by (rule trim_examples(4))
  have deleted: "fst (deleteProperty (service_with ''mock'' phoenix_weather) '' prop_1 '' ?w) = Inr True"
    using present
    by (simp add: deleteProperty_def trim_examples(1) Let_def service_with_def mem_service_def
        mem_prisma_def mem_findUnique_def mem_delete_def two_rows row_ids)
  from deleteProperty_outcomes [of "''   ''" "service_with ''mock'' phoenix_weather" ?w] trim_examples(3)
  have first: "deleteProperty (service_with ''mock'' phoenix_weather) ''   '' ?w
                 = (Inl (Error ''Property ID is required''), ?w)"
    by blast
  from deleteProperty_outcomes [of "''prop_7''" "service_with ''mock'' phoenix_weather" ?w] trim_examples(5) absent
  have second: "fst (deleteProperty (service_with ''mock'' phoenix_weather) ''prop_7'' ?w)
                  = Inl (Error ''Property not found'')"
    by blast
  from deleteProperty_outcomes [of "'' prop_1 ''" "service_with ''mock'' phoenix_weather" ?w] deleted
  have third: "calls_since ?w (snd (deleteProperty (service_with ''mock'' phoenix_weather) '' prop_1 '' ?w))
                 = [DbFindUnique (trim '' prop_1 ''), DbDelete (trim '' prop_1 '')]"
    by blast
  from first second third absent deleted show ?thesis
    by (simp add: trim_examples(1,2) isWhiteSpace_def)
qed

section \<open>Listing records\<close>

lemma getProperties_call:
  "calls_since w (snd (getProperties svc f w)) = [DbFindMany (findMany_args f)]"
  by (simp add: getProperties_def Let_def calls_since_def split: sum.splits)

lemma getProperties_mem:
  "fst (getProperties (mem_service ws) f m) =
     (if fm_skip (findMany_args f) < 0
      then Inl (Error ''Failed to fetch properties: Invalid value for skip argument'')
      else Inr (page (fm_take (findMany_args f)) (fm_skip (findMany_args f))
             (order_rows (fm_orderBy (findMany_args f))
               (filter (matches (fm_where (findMany_args f))) (table (db m))))))"
  by (simp add: getProperties_def Let_def mem_service_def mem_prisma_def mem_findMany_def
      wrap_thrown_def)

lemma findMany_args_limit_200: "fm_take (findMany_args (f\<lparr>limit := Some 200\<rparr>)) = 100"
  by (simp add: findMany_args_def Let_def)

lemma findMany_args_default:
  "findMany_args no_filters =
     \<lparr>fm_where = \<lparr>where_city_contains = None, where_state = None, where_zipCode = None\<rparr>,
      fm_orderBy = (SortCreatedAt, Desc), fm_take = 50, fm_skip = 0\<rparr>"
  by (simp add: findMany_args_def no_filters_def build_where_def truthy_def Let_def)

lemma matches_no_where:
  "matches \<lparr>where_city_contains = None, where_state = None, where_zipCode = None\<rparr> p"
  by (simp add: matches_def)

lemma newest_first:
  "sorted_wrt (\<lambda>p q. createdAt q \<le> createdAt p) (take n (rev (sort_key createdAt ps)))"
proof -
  have "sorted (map createdAt (sort_key createdAt ps))"
    by (rule sorted_sort_key)
  then have "sorted_wrt (\<lambda>p q. createdAt p \<le> createdAt q) (sort_key createdAt ps)"
    by (simp add: sorted_wrt_map)
  then have "sorted_wrt (\<lambda>p q. createdAt q \<le> createdAt p) (rev (sort_key createdAt ps))"
    by (simp add: sorted_wrt_rev)
  then show ?thesis
    by (rule sorted_wrt_take)
qed

text \<open>
  C5. With \<open>limit: 200\<close> the storage is asked for 100 records, whatever the storage, and
  on the reference storage the list has at most 100 records for any filters; with no
  other argument it is the first 100 of the records in descending order of creation
  time, so exactly 100 when more exist. With no argument at all the storage is asked
  for 50 records from offset 0 in descending order of creation time without a
  condition, and on the reference storage the list is the first 50 of the records in
  that order: at most 50, newest first.
\<close>

theorem getProperties_limits:
  "fm_take (findMany_args (f\<lparr>limit := Some 200\<rparr>)) = 100
   \<and> calls_since w (snd (getProperties svc (f\<lparr>limit := Some 200\<rparr>) w))
       = [DbFindMany (findMany_args (f\<lparr>limit := Some 200\<rparr>))]
   \<and> (\<forall>ps. fst (getProperties (mem_service ws) (f\<lparr>limit := Some 200\<rparr>) m) = Inr ps
         \<longrightarrow> length ps \<le> 100)
   \<and> fst (getProperties (mem_service ws) (no_filters\<lparr>limit := Some 200\<rparr>) m)
       = Inr (take 100 (rev (sort_key createdAt (table (db m)))))
   \<and> findMany_args no_filters =
       \<lparr>fm_where = \<lparr>where_city_contains = None, where_state = None, where_zipCode = None\<rparr>,
        fm_orderBy = (SortCreatedAt, Desc), fm_take = 50, fm_skip = 0\<rparr>
   \<and> calls_since w (snd (getProperties svc no_filters w))
       = [DbFindMany (findMany_args no_filters)]
   \<and> fst (getProperties (mem_service ws) no_filters m)
       = Inr (take 50 (rev (sort_key createdAt (table (db m)))))
   \<and> length (take 50 (rev (sort_key createdAt (table (db m))))) \<le> 50
   \<and> sorted_wrt (\<lambda>p q. createdAt q \<le> createdAt p)
        (take 50 (rev (sort_key createdAt (table (db m)))))"
proof -
  have bound: "length ps \<le> 100"
    if "fst (getProperties (mem_service ws) (f\<lparr>limit := Some 200\<rparr>) m) = Inr ps" for ps
    using that
    by (auto simp: getProperties_mem findMany_args_limit_200 page_def split: if_splits)
  have args200: "findMany_args (no_filters\<lparr>limit := Some 200\<rparr>) =
       \<lparr>fm_where = \<lparr>where_city_contains = None, where_state = None, where_zipCode = None\<rparr>,
        fm_orderBy = (SortCreatedAt, Desc), fm_take = 100, fm_skip = 0\<rparr>"
    by (simp add: findMany_args_def no_filters_def build_where_def truthy_def Let_def)
  have list200: "fst (getProperties (mem_service ws) (no_filters\<lparr>limit := Some 200\<rparr>) m)
       = Inr (take 100 (rev (sort_key createdAt (table (db m)))))"
    by (simp add: getProperties_mem args200 page_def order_rows_def matches_no_where)
  have list50: "fst (getProperties (mem_service ws) no_filters m)
       = Inr (take 50 (rev (sort_key createdAt (table (db m)))))"
    by (simp add: getProperties_mem findMany_args_default page_def order_rows_def
        matches_no_where)
  from bound list200 list50 findMany_args_limit_200 [of f] findMany_args_default
    getProperties_call [of w svc] newest_first [of 50 "table (db m)"]
  show ?thesis
    by simp
qed

theorem getProperties_limits_witness:
  "fst (getProperties (service_with ''mock'' phoenix_weather) (no_filters\<lparr>limit := Some 200\<rparr>)
      \<lparr>db = db_of_size 2, calls = []\<rparr>) = Inr [row (Suc 0), row 0]
   \<and> length [row (Suc 0), row 0] \<le> 100"
proof -
  let ?ws = "getCurrentWeather (new_WeatherstackService ''mock'')
               (fixed_runtime (ok_response phoenix_weather))"
  let ?m = "\<lparr>db = db_of_size 2, calls = []\<rparr>"
  let ?f = "no_filters\<lparr>limit := Some 200\<rparr>"
  have ordered: "take 100 (rev (sort_key createdAt (table (db ?m)))) = [row (Suc 0), row 0]"
    by (simp add: two_rows row_def)
  from getProperties_limits [of no_filters "\<lparr>db = (), calls = []\<rparr>" _ ?ws ?m]
  have "fst (getProperties (mem_service ?ws) ?f ?m)
          = Inr (take 100 (rev (sort_key createdAt (table (db ?m)))))"
    by blast
  then have listed: "fst (getProperties (mem_service ?ws) ?f ?m) = Inr [row (Suc 0), row 0]"
    by (simp only: ordered)
  from getProperties_limits [of no_filters "\<lparr>db = (), calls = []\<rparr>" _ ?ws ?m]
  have "\<forall>ps. fst (getProperties (mem_service ?ws) ?f ?m) = Inr ps \<longrightarrow> length ps \<le> 100"
    by blast
  with listed have "length [row (Suc 0), row 0] \<le> 100"
    by blast
  with listed show ?thesis
    by (simp add: service_with_def)
qed

end
